theory Spec2Isabelle
  imports Main "HOL-Library.AList" "HOL-Library.Product_Lexorder"
begin

section \<open>Values, errors and strings\<close>

text \<open>
  Custom-parameter values are dynamically typed Python objects. The model keeps the shapes
  the module \<^verbatim>\<open>custom_params.py\<close> tells apart: \<^verbatim>\<open>None\<close>, booleans, integers, strings, lists and
  dictionaries (a dictionary is its list of items in iteration order, with distinct keys).
  Floating-point values are outside the model. A Python string is kept as the list of its
  UTF-8 bytes: concatenation, comparison, \<^verbatim>\<open>startswith\<close>, \<^verbatim>\<open>replace\<close> and cutting a known prefix
  off agree on code points and on their UTF-8 encoding.
\<close>

datatype pyval =
    PNone
  | PBool bool
  | PInt int
  | PStr string
  | PList "pyval list"
  | PDict "(pyval \<times> pyval) list"

datatype error =
    RuntimeError
  | AttributeError
  | KeyError
  | TypeError
  | ValueError
  | DelegateError

text \<open>Sequencing of a computation that may raise.\<close>

definition ebind :: "error + 'a \<Rightarrow> ('a \<Rightarrow> error + 'b) \<Rightarrow> error + 'b" where
  "ebind m f = (case m of Inl e \<Rightarrow> Inl e | Inr x \<Rightarrow> f x)"

text \<open>Python truth value of an object (\<^verbatim>\<open>if x:\<close>, \<^verbatim>\<open>not x\<close>, \<^verbatim>\<open>bool(x)\<close>).\<close>

fun truthy :: "pyval \<Rightarrow> bool" where
  "truthy PNone = False"
| "truthy (PBool b) = b"
| "truthy (PInt n) = (n \<noteq> 0)"
| "truthy (PStr s) = (s \<noteq> [])"
| "truthy (PList xs) = (xs \<noteq> [])"
| "truthy (PDict kvs) = (kvs \<noteq> [])"

text \<open>\<^verbatim>\<open>s.startswith(p)\<close>.\<close>

definition startswith :: "string \<Rightarrow> string \<Rightarrow> bool" where
  "startswith s p = (take (length p) s = p)"

text \<open>
  \<^verbatim>\<open>s.replace(orig, repl)\<close> for a non-empty \<^verbatim>\<open>orig\<close>: every occurrence, scanning from the left,
  without overlaps.
\<close>

function replace :: "string \<Rightarrow> string \<Rightarrow> string \<Rightarrow> string" where
  "replace orig repl s =
     (if s = [] \<or> orig = [] then s
      else if startswith s orig then repl @ replace orig repl (drop (length orig) s)
      else hd s # replace orig repl (tl s))"
  by pat_completeness auto
termination
  by (relation "measure (\<lambda>(orig, repl, s). length s)") auto

declare replace.simps [simp del]

text \<open>
  Equality of Python objects (\<^verbatim>\<open>==\<close>): \<^verbatim>\<open>True\<close> and \<^verbatim>\<open>False\<close> are the integers 1 and 0, lists
  are equal elementwise, dictionaries when they hold equal items in any order.
\<close>

fun py_eq :: "pyval \<Rightarrow> pyval \<Rightarrow> bool" where
  "py_eq (PBool a) (PBool b) = (a = b)"
| "py_eq (PBool a) (PInt n) = ((if a then 1 else 0) = n)"
| "py_eq (PInt n) (PBool a) = ((if a then 1 else 0) = n)"
| "py_eq (PList xs) (PList ys) = list_all2 py_eq xs ys"
| "py_eq (PDict xs) (PDict ys) =
     (length xs = length ys \<and>
      (\<forall>kv \<in> set xs. \<exists>kv' \<in> set ys. py_eq (fst kv) (fst kv') \<and> py_eq (snd kv) (snd kv')))"
| "py_eq a b = (a = b)"

text \<open>Decimal digits, for \<^verbatim>\<open>int(s)\<close> and \<^verbatim>\<open>str(n)\<close>.\<close>

definition digit_value :: "char \<Rightarrow> nat option" where
  "digit_value c = map_of (zip ''0123456789'' [0, 1, 2, 3, 4, 5, 6, 7, 8, 9]) c"

fun digits_value :: "string \<Rightarrow> nat \<Rightarrow> nat option" where
  "digits_value [] acc = Some acc"
| "digits_value (c # cs) acc =
     (case digit_value c of None \<Rightarrow> None | Some d \<Rightarrow> digits_value cs (10 * acc + d))"

definition is_space :: "char \<Rightarrow> bool" where
  "is_space c = (c \<in> set [CHR '' '', CHR 0x09, CHR 0x0A, CHR 0x0B, CHR 0x0C, CHR 0x0D])"

definition strip :: "string \<Rightarrow> string" where
  "strip s = rev (dropWhile is_space (rev (dropWhile is_space s)))"

text \<open>
  \<^verbatim>\<open>int(s)\<close> for a string: surrounding ASCII whitespace, an optional sign, then at least one
  decimal digit; anything else raises \<^verbatim>\<open>ValueError\<close>.
\<close>

definition int_of_string :: "string \<Rightarrow> error + int" where
  "int_of_string s =
     (let t = strip s;
          neg = (t \<noteq> [] \<and> hd t = CHR ''-'');
          ds = (if t \<noteq> [] \<and> (hd t = CHR ''-'' \<or> hd t = CHR ''+'') then tl t else t)
      in if ds = [] then Inl ValueError
         else (case digits_value ds 0 of
                 None \<Rightarrow> Inl ValueError
               | Some n \<Rightarrow> Inr (if neg then - int n else int n)))"

text \<open>The builtin \<^verbatim>\<open>int(x)\<close> on the modelled values.\<close>

fun py_int :: "pyval \<Rightarrow> error + int" where
  "py_int (PInt n) = Inr n"
| "py_int (PBool b) = Inr (if b then 1 else 0)"
| "py_int (PStr s) = int_of_string s"
| "py_int v = Inl TypeError"

text \<open>The builtin \<^verbatim>\<open>abs(x)\<close>.\<close>

fun py_abs :: "pyval \<Rightarrow> error + pyval" where
  "py_abs (PInt n) = Inr (PInt \<bar>n\<bar>)"
| "py_abs (PBool b) = Inr (PInt (if b then 1 else 0))"
| "py_abs v = Inl TypeError"

fun str_of_nat :: "nat \<Rightarrow> string" where
  "str_of_nat n =
     (if n < 10 then [''0123456789'' ! n]
      else str_of_nat (n div 10) @ [''0123456789'' ! (n mod 10)])"

declare str_of_nat.simps [simp del]

definition str_of_int :: "int \<Rightarrow> string" where
  "str_of_int i = (if i < 0 then CHR ''-'' # str_of_nat (nat (- i)) else str_of_nat (nat i))"

text \<open>
  The characters of a string, for iteration over it: a byte that is not a UTF-8
  continuation byte starts a new character.
\<close>

definition is_continuation :: "char \<Rightarrow> bool" where
  "is_continuation c = (128 \<le> (of_char c :: nat) \<and> (of_char c :: nat) < 192)"

function characters :: "string \<Rightarrow> string list" where
  "characters [] = []"
| "characters (c # s) = (c # takeWhile is_continuation s) # characters (dropWhile is_continuation s)"
  by pat_completeness auto
termination
  by (relation "measure length") (auto simp: length_dropWhile_le less_Suc_eq_le)

text \<open>Iteration over an object (\<^verbatim>\<open>for x in v\<close>); a dictionary yields its keys.\<close>

fun py_iter :: "pyval \<Rightarrow> error + pyval list" where
  "py_iter (PList xs) = Inr xs"
| "py_iter (PDict kvs) = Inr (map fst kvs)"
| "py_iter (PStr s) = Inr (map PStr (characters s))"
| "py_iter v = Inl TypeError"

text \<open>Running a step that may raise over a list, collecting the results.\<close>

fun emap :: "('a \<Rightarrow> error + 'b) \<Rightarrow> 'a list \<Rightarrow> error + 'b list" where
  "emap f [] = Inr []"
| "emap f (x # xs) = ebind (f x) (\<lambda>y. ebind (emap f xs) (\<lambda>ys. Inr (y # ys)))"

section \<open>The native side: Glyphs objects and their proxy\<close>

text \<open>
  A Glyphs object (\<^verbatim>\<open>GSFont\<close>, \<^verbatim>\<open>GSFontMaster\<close>, \<^verbatim>\<open>GSInstance\<close>) as this module sees it: the name
  of its class, its ordered list of custom parameters (name and value; a name may repeat)
  and the attributes that exist on it. \<^verbatim>\<open>GSCustomParameter(name=k, value=v)\<close> is the pair
  \<open>(k, v)\<close>.
\<close>

record glyphs_object =
  class_name :: string
  customParameters :: "(string \<times> pyval) list"
  attributes :: "string \<rightharpoonup> pyval"

record glyphs_proxy =
  owner :: glyphs_object
  sub_key :: string
  lookup :: "string \<Rightarrow> pyval list"
  handled :: "string set"

text \<open>
  \<^verbatim>\<open>GlyphsObjectProxy.__init__\<close>: the lookup table is a \<^verbatim>\<open>defaultdict(list)\<close> filled once from the
  parameter list, so a name that was never registered reads as the empty list.
\<close>

definition GlyphsObjectProxy :: "glyphs_object \<Rightarrow> glyphs_proxy" where
  "GlyphsObjectProxy glyphs_object =
     \<lparr> owner = glyphs_object,
       sub_key = class_name glyphs_object @ ''.'',
       lookup = (\<lambda>key. map snd (filter (\<lambda>param. fst param = key) (customParameters glyphs_object))),
       handled = {} \<rparr>"

definition get_attribute_value :: "glyphs_proxy \<Rightarrow> string \<Rightarrow> pyval" where
  "get_attribute_value glyphs key =
     (case attributes (owner glyphs) key of None \<Rightarrow> PNone | Some v \<Rightarrow> v)"

definition set_attribute_value :: "glyphs_proxy \<Rightarrow> string \<Rightarrow> pyval \<Rightarrow> glyphs_proxy" where
  "set_attribute_value glyphs key v =
     (case attributes (owner glyphs) key of
        None \<Rightarrow> glyphs
      | Some _ \<Rightarrow> glyphs\<lparr>owner := (owner glyphs)\<lparr>attributes := (attributes (owner glyphs))(key \<mapsto> v)\<rparr>\<rparr>)"

text \<open>
  \<^verbatim>\<open>get_custom_value\<close>: the name is marked as handled first; more than one registered value
  raises \<^verbatim>\<open>RuntimeError\<close>. The proxy lives for one pass, so a raise gives up the proxy with it.
\<close>

definition get_custom_value :: "glyphs_proxy \<Rightarrow> string \<Rightarrow> error + (pyval \<times> glyphs_proxy)" where
  "get_custom_value glyphs key =
     (let glyphs' = glyphs\<lparr>handled := insert key (handled glyphs)\<rparr>;
          vals = lookup glyphs' key
      in if length vals > 1 then Inl RuntimeError
         else if vals \<noteq> [] then Inr (hd vals, glyphs')
         else Inr (PNone, glyphs'))"

definition get_custom_values :: "glyphs_proxy \<Rightarrow> string \<Rightarrow> pyval list \<times> glyphs_proxy" where
  "get_custom_values glyphs key =
     (let glyphs' = glyphs\<lparr>handled := insert key (handled glyphs)\<rparr>
      in (lookup glyphs' key, glyphs'))"

definition set_custom_value :: "glyphs_proxy \<Rightarrow> string \<Rightarrow> pyval \<Rightarrow> glyphs_proxy" where
  "set_custom_value glyphs key v =
     glyphs\<lparr>owner := (owner glyphs)\<lparr>customParameters := customParameters (owner glyphs) @ [(key, v)]\<rparr>\<rparr>"

fun set_custom_values :: "glyphs_proxy \<Rightarrow> string \<Rightarrow> pyval list \<Rightarrow> glyphs_proxy" where
  "set_custom_values glyphs key [] = glyphs"
| "set_custom_values glyphs key (v # vs) = set_custom_values (set_custom_value glyphs key v) key vs"

definition unhandled_custom_parameters :: "glyphs_proxy \<Rightarrow> (string \<times> pyval) list" where
  "unhandled_custom_parameters glyphs =
     filter (\<lambda>param. fst param \<notin> handled glyphs) (customParameters (owner glyphs))"


section \<open>The interchange side: UFOs and their proxy\<close>

text \<open>
  A UFO as this module sees it: the info object (a name is in the domain when the info
  object has the attribute; an attribute that is not set holds \<^verbatim>\<open>None\<close>), the lib (a dictionary,
  kept in iteration order) and the text of the features (\<^verbatim>\<open>None\<close> or a string).
\<close>

record ufo =
  info :: "string \<rightharpoonup> pyval"
  lib :: "(string \<times> pyval) list"
  features_text :: "string option"

record ufo_proxy =
  ufo_owner :: ufo
  ufo_handled :: "string set"

definition UFOProxy :: "ufo \<Rightarrow> ufo_proxy" where
  "UFOProxy u = \<lparr> ufo_owner = u, ufo_handled = {} \<rparr>"

definition has_info_attr :: "ufo_proxy \<Rightarrow> string \<Rightarrow> bool" where
  "has_info_attr u name = (info (ufo_owner u) name \<noteq> None)"

text \<open>\<^verbatim>\<open>getattr\<close> raises \<^verbatim>\<open>AttributeError\<close> for an attribute the info object does not have.\<close>

definition get_info_value :: "ufo_proxy \<Rightarrow> string \<Rightarrow> error + pyval" where
  "get_info_value u name =
     (case info (ufo_owner u) name of None \<Rightarrow> Inl AttributeError | Some v \<Rightarrow> Inr v)"

definition set_info_value :: "ufo_proxy \<Rightarrow> string \<Rightarrow> pyval \<Rightarrow> ufo_proxy" where
  "set_info_value u name v =
     u\<lparr>ufo_owner := (ufo_owner u)\<lparr>info := (info (ufo_owner u))(name \<mapsto> v)\<rparr>\<rparr>"

definition has_lib_key :: "ufo_proxy \<Rightarrow> string \<Rightarrow> bool" where
  "has_lib_key u name = (name \<in> fst ` set (lib (ufo_owner u)))"

definition get_lib_value :: "ufo_proxy \<Rightarrow> string \<Rightarrow> pyval \<times> ufo_proxy" where
  "get_lib_value u name =
     (case map_of (lib (ufo_owner u)) name of
        None \<Rightarrow> (PNone, u)
      | Some v \<Rightarrow> (v, u\<lparr>ufo_handled := insert name (ufo_handled u)\<rparr>))"

text \<open>\<^verbatim>\<open>lib[name] = value\<close>: a key that exists keeps its place, a new key goes last.\<close>

definition set_lib_value :: "ufo_proxy \<Rightarrow> string \<Rightarrow> pyval \<Rightarrow> ufo_proxy" where
  "set_lib_value u name v =
     u\<lparr>ufo_owner := (ufo_owner u)\<lparr>lib := AList.update name v (lib (ufo_owner u))\<rparr>\<rparr>"

section \<open>What the module imports\<close>

text \<open>
  The modules \<^verbatim>\<open>constants\<close>, \<^verbatim>\<open>glyphsLib.util\<close>, \<^verbatim>\<open>filters\<close> and \<^verbatim>\<open>features\<close> are not among the
  sources at hand. Their constants and functions are parameters of the model; a delegate
  may raise. \<open>py_repr\<close> is the interpreter's \<^verbatim>\<open>str\<close> of a list or a dictionary.
\<close>

record imported =
  GLYPHS_PREFIX :: string
  UFO2FT_FILTERS_KEY :: string
  UFO2FT_USE_PROD_NAMES_KEY :: string
  CODEPAGE_RANGES :: "(int \<times> int) list"
  REVERSE_CODEPAGE_RANGES :: "(int \<times> int) list"
  bin_to_int_list :: "int \<Rightarrow> error + pyval"
  int_list_to_bin :: "pyval \<Rightarrow> error + pyval"
  parse_glyphs_filter :: "pyval \<Rightarrow> bool \<Rightarrow> error + pyval"
  write_glyphs_filter :: "pyval \<Rightarrow> error + (pyval \<times> bool)"
  replace_feature :: "string \<Rightarrow> string \<Rightarrow> string \<Rightarrow> error + string"
  py_repr :: "pyval \<Rightarrow> string"

definition CUSTOM_PARAM_PREFIX :: "imported \<Rightarrow> string" where
  "CUSTOM_PARAM_PREFIX env = GLYPHS_PREFIX env @ ''customParameter.''"

definition unhandled_lib_items :: "imported \<Rightarrow> ufo_proxy \<Rightarrow> (string \<times> pyval) list" where
  "unhandled_lib_items env u =
     filter (\<lambda>(key, v). startswith key (CUSTOM_PARAM_PREFIX env) \<and> key \<notin> ufo_handled u)
       (lib (ufo_owner u))"

definition identity :: "pyval \<Rightarrow> error + pyval" where
  "identity v = Inr v"

section \<open>The generic handler\<close>

record param_handler =
  glyphs_name :: string
  glyphs_long_name :: "string option"
  glyphs_multivalued :: bool
  ufo_name :: string
  ufo_prefix :: string
  ufo_info :: bool
  ufo_default :: pyval
  value_to_ufo :: "pyval \<Rightarrow> error + pyval"
  value_to_glyphs :: "pyval \<Rightarrow> error + pyval"

text \<open>
  \<^verbatim>\<open>ParamHandler.__init__\<close> with the defaults of its keyword arguments; \<^verbatim>\<open>ufo_name or glyphs_name\<close>
  takes the Glyphs name when no UFO name (or an empty one) is given. The registrations
  below change the other fields with record updates.
\<close>

definition new_handler :: "imported \<Rightarrow> string \<Rightarrow> string option \<Rightarrow> param_handler" where
  "new_handler env g u =
     \<lparr> glyphs_name = g,
       glyphs_long_name = None,
       glyphs_multivalued = False,
       ufo_name = (case u of None \<Rightarrow> g | Some n \<Rightarrow> if n = [] then g else n),
       ufo_prefix = CUSTOM_PARAM_PREFIX env,
       ufo_info = True,
       ufo_default = PNone,
       value_to_ufo = identity,
       value_to_glyphs = identity \<rparr>"

text \<open>
  \<^verbatim>\<open>ParamHandler._read_from_glyphs\<close>. The multivalued getter returns the list of values itself,
  which is never \<^verbatim>\<open>None\<close>.
\<close>

definition getter :: "param_handler \<Rightarrow> glyphs_proxy \<Rightarrow> string \<Rightarrow> error + (pyval \<times> glyphs_proxy)" where
  "getter h glyphs key =
     (if glyphs_multivalued h
      then (case get_custom_values glyphs key of (vs, glyphs') \<Rightarrow> Inr (PList vs, glyphs'))
      else get_custom_value glyphs key)"

definition read_from_glyphs :: "param_handler \<Rightarrow> glyphs_proxy \<Rightarrow> error + (pyval \<times> glyphs_proxy)" where
  "read_from_glyphs h glyphs =
     ebind (getter h glyphs (glyphs_name h)) (\<lambda>(small_name_value, glyphs').
       if small_name_value \<noteq> PNone then Inr (small_name_value, glyphs')
       else (case glyphs_long_name h of
               Some long_name \<Rightarrow> getter h glyphs' long_name
             | None \<Rightarrow> Inr (PNone, glyphs')))"

text \<open>\<^verbatim>\<open>ParamHandler._write_to_glyphs\<close>; \<^verbatim>\<open>set_custom_values\<close> iterates over the value.\<close>

definition write_to_glyphs :: "param_handler \<Rightarrow> glyphs_proxy \<Rightarrow> pyval \<Rightarrow> error + glyphs_proxy" where
  "write_to_glyphs h glyphs v =
     (if glyphs_multivalued h
      then ebind (py_iter v) (\<lambda>vs. Inr (set_custom_values glyphs (glyphs_name h) vs))
      else Inr (set_custom_value glyphs (glyphs_name h) v))"

definition lib_key :: "imported \<Rightarrow> param_handler \<Rightarrow> glyphs_proxy \<Rightarrow> string" where
  "lib_key env h glyphs =
     (if ufo_prefix h = CUSTOM_PARAM_PREFIX env then ufo_prefix h @ sub_key glyphs else ufo_prefix h)
     @ ufo_name h"

definition read_from_ufo :: "imported \<Rightarrow> param_handler \<Rightarrow> glyphs_proxy \<Rightarrow> ufo_proxy \<Rightarrow> pyval \<times> ufo_proxy" where
  "read_from_ufo env h glyphs u =
     (case (if ufo_info h then info (ufo_owner u) (ufo_name h) else None) of
        Some v \<Rightarrow> (v, u)
      | None \<Rightarrow> get_lib_value u (lib_key env h glyphs))"

definition write_to_ufo :: "imported \<Rightarrow> param_handler \<Rightarrow> glyphs_proxy \<Rightarrow> ufo_proxy \<Rightarrow> pyval \<Rightarrow> ufo_proxy" where
  "write_to_ufo env h glyphs u v =
     (if ufo_default h \<noteq> PNone \<and> py_eq v (ufo_default h) then u
      else if ufo_info h \<and> has_info_attr u (ufo_name h) then set_info_value u (ufo_name h) v
      else set_lib_value u (lib_key env h glyphs) v)"

text \<open>
  \<^verbatim>\<open>MiscParamHandler\<close> reads and writes an attribute of the Glyphs object instead of a custom
  parameter.
\<close>

definition Misc_read_from_glyphs :: "param_handler \<Rightarrow> glyphs_proxy \<Rightarrow> error + (pyval \<times> glyphs_proxy)" where
  "Misc_read_from_glyphs h glyphs = Inr (get_attribute_value glyphs (glyphs_name h), glyphs)"

definition Misc_write_to_glyphs :: "param_handler \<Rightarrow> glyphs_proxy \<Rightarrow> pyval \<Rightarrow> error + glyphs_proxy" where
  "Misc_write_to_glyphs h glyphs v = Inr (set_attribute_value glyphs (glyphs_name h) v)"

text \<open>
  \<^verbatim>\<open>ParamHandler.to_ufo\<close> and \<^verbatim>\<open>ParamHandler.to_glyphs\<close>, over the reader and writer of the class.
  \<^verbatim>\<open>EmptyListDefaultParamHandler.to_glyphs\<close> also returns on an empty list.
\<close>

definition generic_to_ufo ::
  "imported \<Rightarrow> (param_handler \<Rightarrow> glyphs_proxy \<Rightarrow> error + (pyval \<times> glyphs_proxy)) \<Rightarrow>
   param_handler \<Rightarrow> glyphs_proxy \<Rightarrow> ufo_proxy \<Rightarrow> error + (glyphs_proxy \<times> ufo_proxy)" where
  "generic_to_ufo env reader h glyphs u =
     ebind (reader h glyphs) (\<lambda>(glyphs_value, glyphs').
       if glyphs_value = PNone then Inr (glyphs', u)
       else ebind (value_to_ufo h glyphs_value) (\<lambda>ufo_value.
              Inr (glyphs', write_to_ufo env h glyphs' u ufo_value)))"

definition generic_to_glyphs ::
  "imported \<Rightarrow> (param_handler \<Rightarrow> glyphs_proxy \<Rightarrow> pyval \<Rightarrow> error + glyphs_proxy) \<Rightarrow> bool \<Rightarrow>
   param_handler \<Rightarrow> glyphs_proxy \<Rightarrow> ufo_proxy \<Rightarrow> error + (glyphs_proxy \<times> ufo_proxy)" where
  "generic_to_glyphs env writer empty_list_is_default h glyphs u =
     (case read_from_ufo env h glyphs u of (ufo_value, u') \<Rightarrow>
        if ufo_value = PNone \<or> (empty_list_is_default \<and> ufo_value = PList []) then Inr (glyphs, u')
        else ebind (value_to_glyphs h ufo_value) (\<lambda>glyphs_value.
               ebind (writer h glyphs glyphs_value) (\<lambda>glyphs'. Inr (glyphs', u'))))"

section \<open>Value transformations of the registered handlers\<close>

text \<open>
  A key of a dictionary whose keys are integers: a boolean is the integer 1 or 0, a string
  or \<^verbatim>\<open>None\<close> is hashable and equal to no integer, a list or a dictionary is unhashable
  (\<^verbatim>\<open>TypeError\<close>).
\<close>

fun int_key :: "pyval \<Rightarrow> error + int option" where
  "int_key (PInt n) = Inr (Some n)"
| "int_key (PBool b) = Inr (Some (if b then 1 else 0))"
| "int_key (PList xs) = Inl TypeError"
| "int_key (PDict kvs) = Inl TypeError"
| "int_key v = Inr None"

definition int_dict_getitem :: "(int \<times> int) list \<Rightarrow> pyval \<Rightarrow> error + pyval" where
  "int_dict_getitem d v =
     ebind (int_key v) (\<lambda>k.
       case (case k of None \<Rightarrow> None | Some n \<Rightarrow> map_of d n) of
         None \<Rightarrow> Inl KeyError
       | Some x \<Rightarrow> Inr (PInt x))"

definition int_dict_contains :: "(int \<times> int) list \<Rightarrow> pyval \<Rightarrow> error + bool" where
  "int_dict_contains d v =
     ebind (int_key v) (\<lambda>k. Inr (case k of None \<Rightarrow> False | Some n \<Rightarrow> map_of d n \<noteq> None))"

text \<open>\<^verbatim>\<open>lambda value: [CODEPAGE_RANGES[v] for v in value]\<close>.\<close>

definition codepage_to_ufo :: "imported \<Rightarrow> pyval \<Rightarrow> error + pyval" where
  "codepage_to_ufo env v =
     ebind (py_iter v) (\<lambda>vs.
       ebind (emap (int_dict_getitem (CODEPAGE_RANGES env)) vs) (\<lambda>rs. Inr (PList rs)))"

text \<open>\<^verbatim>\<open>lambda value: [REVERSE_CODEPAGE_RANGES[v] for v in value if v in REVERSE_CODEPAGE_RANGES]\<close>.\<close>

definition codepage_to_glyphs :: "imported \<Rightarrow> pyval \<Rightarrow> error + pyval" where
  "codepage_to_glyphs env v =
     ebind (py_iter v) (\<lambda>vs.
       ebind (emap (\<lambda>x. ebind (int_dict_contains (REVERSE_CODEPAGE_RANGES env) x) (\<lambda>b.
                      if b then ebind (int_dict_getitem (REVERSE_CODEPAGE_RANGES env) x) (\<lambda>y. Inr [y])
                      else Inr [])) vs)
         (\<lambda>rs. Inr (PList (concat rs))))"

text \<open>
  \<^verbatim>\<open>to_ufo_gasp_table\<close>. The dictionary comprehension \<^verbatim>\<open>{int(k): int(v) for k, v in value.items()}\<close>
  keeps one item for each integer key (a later item replaces the value of an earlier one);
  \<^verbatim>\<open>sorted\<close> orders the items as pairs; one record is appended per item.
\<close>

fun gasp_int_items :: "(pyval \<times> pyval) list \<Rightarrow> (int \<times> int) list \<Rightarrow> error + (int \<times> int) list" where
  "gasp_int_items [] d = Inr d"
| "gasp_int_items ((k, v) # kvs) d =
     ebind (py_int k) (\<lambda>k'. ebind (py_int v) (\<lambda>v'. gasp_int_items kvs (AList.update k' v' d)))"

fun gasp_append_records :: "imported \<Rightarrow> (int \<times> int) list \<Rightarrow> pyval list \<Rightarrow> error + pyval list" where
  "gasp_append_records env [] gasp_records = Inr gasp_records"
| "gasp_append_records env ((max_ppem, gasp_behavior) # items) gasp_records =
     ebind (bin_to_int_list env gasp_behavior) (\<lambda>bits.
       gasp_append_records env items
         (gasp_records @ [PDict [(PStr ''rangeMaxPPEM'', PInt max_ppem),
                                 (PStr ''rangeGaspBehavior'', bits)]]))"

definition to_ufo_gasp_table :: "imported \<Rightarrow> pyval \<Rightarrow> error + pyval" where
  "to_ufo_gasp_table env v =
     (case v of
        PDict kvs \<Rightarrow>
          ebind (gasp_int_items kvs []) (\<lambda>d.
            ebind (gasp_append_records env (sort d) []) (\<lambda>gasp_records. Inr (PList gasp_records)))
      | _ \<Rightarrow> Inl AttributeError)"

text \<open>\<^verbatim>\<open>record[key]\<close> for a string key: only a dictionary can be subscripted by a string.\<close>

definition getitem :: "pyval \<Rightarrow> string \<Rightarrow> error + pyval" where
  "getitem r key =
     (case r of
        PDict kvs \<Rightarrow> (case map_of kvs (PStr key) of None \<Rightarrow> Inl KeyError | Some v \<Rightarrow> Inr v)
      | _ \<Rightarrow> Inl TypeError)"

definition py_str :: "imported \<Rightarrow> pyval \<Rightarrow> string" where
  "py_str env v =
     (case v of
        PStr s \<Rightarrow> s
      | PInt n \<Rightarrow> str_of_int n
      | PBool b \<Rightarrow> (if b then ''True'' else ''False'')
      | PNone \<Rightarrow> ''None''
      | _ \<Rightarrow> py_repr env v)"

fun gasp_dict :: "imported \<Rightarrow> pyval list \<Rightarrow> (pyval \<times> pyval) list \<Rightarrow> error + pyval" where
  "gasp_dict env [] d = Inr (PDict d)"
| "gasp_dict env (r # rs) d =
     ebind (getitem r ''rangeMaxPPEM'') (\<lambda>k.
       ebind (getitem r ''rangeGaspBehavior'') (\<lambda>b.
         ebind (int_list_to_bin env b) (\<lambda>v.
           gasp_dict env rs (AList.update (PStr (py_str env k)) v d))))"

definition to_glyphs_gasp_table :: "imported \<Rightarrow> pyval \<Rightarrow> error + pyval" where
  "to_glyphs_gasp_table env v = ebind (py_iter v) (\<lambda>records. gasp_dict env records [])"

section \<open>Special handlers\<close>

datatype handler =
    ParamHandler param_handler
  | EmptyListDefaultParamHandler param_handler
  | MiscParamHandler param_handler
  | OS2SelectionParamHandler
  | FilterParamHandler
  | ReplaceFeatureParamHandler

definition flags :: "(string \<times> int) list" where
  "flags = [(''Has WWS Names'', 8), (''Use Typo Metrics'', 7)]"

text \<open>
  \<^verbatim>\<open>value in container\<close> for an integer: membership in a list, a key of a dictionary;
  \<^verbatim>\<open>TypeError\<close> for a container that cannot hold an integer.
\<close>

definition contains_int :: "pyval \<Rightarrow> int \<Rightarrow> error + bool" where
  "contains_int container n =
     (case container of
        PList xs \<Rightarrow> Inr (list_ex (\<lambda>x. py_eq x (PInt n)) xs)
      | PDict kvs \<Rightarrow> Inr (list_ex (\<lambda>x. py_eq x (PInt n)) (map fst kvs))
      | _ \<Rightarrow> Inl TypeError)"

text \<open>\<^verbatim>\<open>xs.append(v)\<close> and \<^verbatim>\<open>xs.extend(vs)\<close>: only a list has these methods.\<close>

definition py_append :: "pyval \<Rightarrow> pyval \<Rightarrow> error + pyval" where
  "py_append container v =
     (case container of PList xs \<Rightarrow> Inr (PList (xs @ [v])) | _ \<Rightarrow> Inl AttributeError)"

definition py_extend :: "pyval \<Rightarrow> pyval list \<Rightarrow> error + pyval" where
  "py_extend container vs =
     (case container of PList xs \<Rightarrow> Inr (PList (xs @ vs)) | _ \<Rightarrow> Inl AttributeError)"

fun OS2Selection_to_glyphs_flags ::
  "(string \<times> int) list \<Rightarrow> pyval \<Rightarrow> glyphs_proxy \<Rightarrow> error + glyphs_proxy" where
  "OS2Selection_to_glyphs_flags [] ufo_flags glyphs = Inr glyphs"
| "OS2Selection_to_glyphs_flags ((name, v) # fs) ufo_flags glyphs =
     ebind (contains_int ufo_flags v) (\<lambda>present.
       OS2Selection_to_glyphs_flags fs ufo_flags
         (if present then set_custom_value glyphs name (PBool True) else glyphs))"

definition OS2Selection_to_glyphs ::
  "glyphs_proxy \<Rightarrow> ufo_proxy \<Rightarrow> error + (glyphs_proxy \<times> ufo_proxy)" where
  "OS2Selection_to_glyphs glyphs u =
     ebind (get_info_value u ''openTypeOS2Selection'') (\<lambda>ufo_flags.
       if ufo_flags = PNone then Inr (glyphs, u)
       else ebind (OS2Selection_to_glyphs_flags flags ufo_flags glyphs) (\<lambda>glyphs'. Inr (glyphs', u)))"

text \<open>\<^verbatim>\<open>OS2SelectionParamHandler.to_ufo\<close>: the body of the loop for one flag, then the loop.\<close>

definition OS2Selection_to_ufo_flag ::
  "string \<Rightarrow> int \<Rightarrow> glyphs_proxy \<Rightarrow> ufo_proxy \<Rightarrow> error + (glyphs_proxy \<times> ufo_proxy)" where
  "OS2Selection_to_ufo_flag name v glyphs u =
     ebind (get_custom_value glyphs name) (\<lambda>(flag, glyphs').
       if truthy flag then
         ebind (get_info_value u ''openTypeOS2Selection'') (\<lambda>selection0.
           let selection = (if selection0 = PNone then PList [] else selection0) in
           ebind (contains_int selection v) (\<lambda>present.
             ebind (if \<not> present then py_append selection (PInt v) else Inr selection) (\<lambda>selection'.
               Inr (glyphs', set_info_value u ''openTypeOS2Selection'' selection'))))
       else Inr (glyphs', u))"

fun OS2Selection_to_ufo_flags ::
  "(string \<times> int) list \<Rightarrow> glyphs_proxy \<Rightarrow> ufo_proxy \<Rightarrow> error + (glyphs_proxy \<times> ufo_proxy)" where
  "OS2Selection_to_ufo_flags [] glyphs u = Inr (glyphs, u)"
| "OS2Selection_to_ufo_flags ((name, v) # fs) glyphs u =
     ebind (OS2Selection_to_ufo_flag name v glyphs u) (\<lambda>(glyphs', u').
       OS2Selection_to_ufo_flags fs glyphs' u')"

definition OS2Selection_to_ufo ::
  "glyphs_proxy \<Rightarrow> ufo_proxy \<Rightarrow> error + (glyphs_proxy \<times> ufo_proxy)" where
  "OS2Selection_to_ufo glyphs u = OS2Selection_to_ufo_flags flags glyphs u"

text \<open>\<^verbatim>\<open>FilterParamHandler\<close>.\<close>

fun Filter_to_glyphs_loop :: "imported \<Rightarrow> pyval list \<Rightarrow> glyphs_proxy \<Rightarrow> error + glyphs_proxy" where
  "Filter_to_glyphs_loop env [] glyphs = Inr glyphs"
| "Filter_to_glyphs_loop env (ufo_filter # fs) glyphs =
     ebind (write_glyphs_filter env ufo_filter) (\<lambda>(glyphs_filter, is_pre).
       ebind (py_iter glyphs_filter) (\<lambda>vs.
         Filter_to_glyphs_loop env fs
           (set_custom_values glyphs (if is_pre then ''PreFilter'' else ''Filter'') vs)))"

definition Filter_to_glyphs ::
  "imported \<Rightarrow> glyphs_proxy \<Rightarrow> ufo_proxy \<Rightarrow> error + (glyphs_proxy \<times> ufo_proxy)" where
  "Filter_to_glyphs env glyphs u =
     (case get_lib_value u (UFO2FT_FILTERS_KEY env) of (ufo_filters, u') \<Rightarrow>
        if ufo_filters = PNone then Inr (glyphs, u')
        else ebind (py_iter ufo_filters) (\<lambda>fs.
               ebind (Filter_to_glyphs_loop env fs glyphs) (\<lambda>glyphs'. Inr (glyphs', u'))))"

definition Filter_to_ufo ::
  "imported \<Rightarrow> glyphs_proxy \<Rightarrow> ufo_proxy \<Rightarrow> error + (glyphs_proxy \<times> ufo_proxy)" where
  "Filter_to_ufo env glyphs u =
     (case get_custom_values glyphs ''PreFilter'' of (pre_filters, glyphs1) \<Rightarrow>
      ebind (emap (\<lambda>pre_filter. parse_glyphs_filter env pre_filter True) pre_filters) (\<lambda>parsed_pre.
        case get_custom_values glyphs1 ''Filter'' of (filters, glyphs2) \<Rightarrow>
        ebind (emap (\<lambda>filter. parse_glyphs_filter env filter False) filters) (\<lambda>parsed.
          let ufo_filters = parsed_pre @ parsed in
          if ufo_filters = [] then Inr (glyphs2, u)
          else
            let u1 = (if \<not> has_lib_key u (UFO2FT_FILTERS_KEY env)
                      then set_lib_value u (UFO2FT_FILTERS_KEY env) (PList []) else u)
            in case get_lib_value u1 (UFO2FT_FILTERS_KEY env) of (existing, u2) \<Rightarrow>
                 ebind (py_extend existing ufo_filters) (\<lambda>extended.
                   Inr (glyphs2, set_lib_value u2 (UFO2FT_FILTERS_KEY env) extended)))))"

text \<open>
  \<^verbatim>\<open>ReplaceFeatureParamHandler\<close>. \<^verbatim>\<open>re.split("\s*;\s*", value, 1)\<close> cuts a string at its first
  semicolon together with the ASCII whitespace around it; without a semicolon there is
  one part only and unpacking it into \<^verbatim>\<open>tag, repl\<close> raises \<^verbatim>\<open>ValueError\<close>.
\<close>

definition re_split :: "pyval \<Rightarrow> error + string list" where
  "re_split v =
     (case v of
        PStr s \<Rightarrow>
          (let front = takeWhile (\<lambda>c. c \<noteq> CHR '';'') s;
               rest = dropWhile (\<lambda>c. c \<noteq> CHR '';'') s
           in if rest = [] then Inr [s]
              else Inr [rev (dropWhile is_space (rev front)), dropWhile is_space (tl rest)])
      | _ \<Rightarrow> Inl TypeError)"

text \<open>\<^verbatim>\<open>tag, repl = parts\<close>: unpacking needs exactly two parts.\<close>

fun unpack_pair :: "string list \<Rightarrow> error + (string \<times> string)" where
  "unpack_pair [tag, repl] = Inr (tag, repl)"
| "unpack_pair parts = Inl ValueError"

fun ReplaceFeature_to_ufo_loop :: "imported \<Rightarrow> pyval list \<Rightarrow> ufo \<Rightarrow> error + ufo" where
  "ReplaceFeature_to_ufo_loop env [] u = Inr u"
| "ReplaceFeature_to_ufo_loop env (v # vs) u =
     ebind (re_split v) (\<lambda>parts.
       ebind (unpack_pair parts) (\<lambda>(tag, repl).
         ebind (replace_feature env tag repl (case features_text u of None \<Rightarrow> [] | Some t \<Rightarrow> t))
           (\<lambda>t. ReplaceFeature_to_ufo_loop env vs (u\<lparr>features_text := Some t\<rparr>))))"

definition ReplaceFeature_to_ufo ::
  "imported \<Rightarrow> glyphs_proxy \<Rightarrow> ufo_proxy \<Rightarrow> error + (glyphs_proxy \<times> ufo_proxy)" where
  "ReplaceFeature_to_ufo env glyphs u =
     (case get_custom_values glyphs ''Replace Feature'' of (vs, glyphs') \<Rightarrow>
        ebind (ReplaceFeature_to_ufo_loop env vs (ufo_owner u)) (\<lambda>owner'.
          Inr (glyphs', u\<lparr>ufo_owner := owner'\<rparr>)))"

definition ReplaceFeature_to_glyphs ::
  "glyphs_proxy \<Rightarrow> ufo_proxy \<Rightarrow> error + (glyphs_proxy \<times> ufo_proxy)" where
  "ReplaceFeature_to_glyphs glyphs u = Inr (glyphs, u)"

text \<open>The methods \<^verbatim>\<open>to_ufo\<close> and \<^verbatim>\<open>to_glyphs\<close> of a handler, by its class.\<close>

fun to_ufo :: "imported \<Rightarrow> handler \<Rightarrow> glyphs_proxy \<Rightarrow> ufo_proxy \<Rightarrow> error + (glyphs_proxy \<times> ufo_proxy)" where
  "to_ufo env (ParamHandler h) glyphs u = generic_to_ufo env read_from_glyphs h glyphs u"
| "to_ufo env (EmptyListDefaultParamHandler h) glyphs u = generic_to_ufo env read_from_glyphs h glyphs u"
| "to_ufo env (MiscParamHandler h) glyphs u = generic_to_ufo env Misc_read_from_glyphs h glyphs u"
| "to_ufo env OS2SelectionParamHandler glyphs u = OS2Selection_to_ufo glyphs u"
| "to_ufo env FilterParamHandler glyphs u = Filter_to_ufo env glyphs u"
| "to_ufo env ReplaceFeatureParamHandler glyphs u = ReplaceFeature_to_ufo env glyphs u"

fun to_glyphs :: "imported \<Rightarrow> handler \<Rightarrow> glyphs_proxy \<Rightarrow> ufo_proxy \<Rightarrow> error + (glyphs_proxy \<times> ufo_proxy)" where
  "to_glyphs env (ParamHandler h) glyphs u = generic_to_glyphs env write_to_glyphs False h glyphs u"
| "to_glyphs env (EmptyListDefaultParamHandler h) glyphs u = generic_to_glyphs env write_to_glyphs True h glyphs u"
| "to_glyphs env (MiscParamHandler h) glyphs u = generic_to_glyphs env Misc_write_to_glyphs False h glyphs u"
| "to_glyphs env OS2SelectionParamHandler glyphs u = OS2Selection_to_glyphs glyphs u"
| "to_glyphs env FilterParamHandler glyphs u = Filter_to_glyphs env glyphs u"
| "to_glyphs env ReplaceFeatureParamHandler glyphs u = ReplaceFeature_to_glyphs glyphs u"

section \<open>The registry\<close>

definition GLYPHS_UFO_CUSTOM_PARAMS :: "(string \<times> string) list" where
  "GLYPHS_UFO_CUSTOM_PARAMS =
     [(''hheaAscender'', ''openTypeHheaAscender''),
      (''hheaDescender'', ''openTypeHheaDescender''),
      (''hheaLineGap'', ''openTypeHheaLineGap''),
      (''compatibleFullName'', ''openTypeNameCompatibleFullName''),
      (''description'', ''openTypeNameDescription''), (''license'', ''openTypeNameLicense''),
      (''licenseURL'', ''openTypeNameLicenseURL''),
      (''preferredFamilyName'', ''openTypeNamePreferredFamilyName''),
      (''preferredSubfamilyName'', ''openTypeNamePreferredSubfamilyName''),
      (''sampleText'', ''openTypeNameSampleText''),
      (''WWSFamilyName'', ''openTypeNameWWSFamilyName''),
      (''WWSSubfamilyName'', ''openTypeNameWWSSubfamilyName''),
      (''panose'', ''openTypeOS2Panose''), (''fsType'', ''openTypeOS2Type''),
      (''typoAscender'', ''openTypeOS2TypoAscender''),
      (''typoDescender'', ''openTypeOS2TypoDescender''),
      (''typoLineGap'', ''openTypeOS2TypoLineGap''),
      (''unicodeRanges'', ''openTypeOS2UnicodeRanges''),
      (''vendorID'', ''openTypeOS2VendorID''),
      (''vheaVertTypoAscender'', ''openTypeVheaVertTypoAscender''),
      (''vheaVertTypoDescender'', ''openTypeVheaVertTypoDescender''),
      (''vheaVertTypoLineGap'', ''openTypeVheaVertTypoLineGap''),
      (''blueScale'', ''postscriptBlueScale''), (''blueShift'', ''postscriptBlueShift''),
      (''isFixedPitch'', ''postscriptIsFixedPitch''),
      (''underlinePosition'', ''postscriptUnderlinePosition''),
      (''underlineThickness'', ''postscriptUnderlineThickness'')]"

definition GLYPHS_UFO_CUSTOM_PARAMS_NO_SHORT_NAME :: "string list" where
  "GLYPHS_UFO_CUSTOM_PARAMS_NO_SHORT_NAME =
     [''openTypeHheaCaretSlopeRun'', ''openTypeVheaCaretSlopeRun'',
      ''openTypeHheaCaretSlopeRise'', ''openTypeVheaCaretSlopeRise'',
      ''openTypeHheaCaretOffset'', ''openTypeVheaCaretOffset'', ''openTypeHeadLowestRecPPEM'',
      ''openTypeHeadFlags'', ''openTypeNameVersion'', ''openTypeNameUniqueID'',
      ''openTypeNameRecords'', ''openTypeOS2FamilyClass'', ''openTypeOS2SubscriptXSize'',
      ''openTypeOS2SubscriptYSize'', ''openTypeOS2SubscriptXOffset'',
      ''openTypeOS2SubscriptYOffset'', ''openTypeOS2SuperscriptXSize'',
      ''openTypeOS2SuperscriptYSize'', ''openTypeOS2SuperscriptXOffset'',
      ''openTypeOS2SuperscriptYOffset'', ''openTypeOS2StrikeoutSize'',
      ''openTypeOS2StrikeoutPosition'', ''postscriptFontName'', ''postscriptFullName'',
      ''postscriptSlantAngle'', ''postscriptUniqueID'', ''postscriptBlueFuzz'',
      ''postscriptForceBold'', ''postscriptDefaultWidthX'', ''postscriptNominalWidthX'',
      ''postscriptWeightName'', ''postscriptDefaultCharacter'',
      ''postscriptWindowsCharacterSet'', ''macintoshFONDFamilyID'', ''macintoshFONDName'',
      ''trademark'', ''styleMapFamilyName'', ''styleMapStyleName'']"

text \<open>\<^verbatim>\<open>lambda value: not value\<close>, \<^verbatim>\<open>lambda value: int(not value)\<close>, \<^verbatim>\<open>lambda value: not bool(value)\<close>, \<^verbatim>\<open>int\<close>.\<close>

definition py_not :: "pyval \<Rightarrow> error + pyval" where
  "py_not v = Inr (PBool (\<not> truthy v))"

definition int_not :: "pyval \<Rightarrow> error + pyval" where
  "int_not v = Inr (PInt (if truthy v then 0 else 1))"

definition to_int :: "pyval \<Rightarrow> error + pyval" where
  "to_int v = ebind (py_int v) (\<lambda>n. Inr (PInt n))"

text \<open>
  \<^verbatim>\<open>KNOWN_PARAM_HANDLERS\<close> after the module has been loaded: the handlers in the order of their
  registration. For \<^verbatim>\<open>winAscent\<close>, \<^verbatim>\<open>winDescent\<close>, \<^verbatim>\<open>weightClass\<close> and \<^verbatim>\<open>widthClass\<close> the UFO name is
  \<^verbatim>\<open>'openTypeOS2W' + glyphs_name[1:]\<close>.
\<close>

definition KNOWN_PARAM_HANDLERS :: "imported \<Rightarrow> handler list" where
  "KNOWN_PARAM_HANDLERS env =
     map (\<lambda>(g, u). ParamHandler ((new_handler env g (Some u))\<lparr>glyphs_long_name := Some u\<rparr>))
       GLYPHS_UFO_CUSTOM_PARAMS
     @ map (\<lambda>name. ParamHandler (new_handler env name None)) GLYPHS_UFO_CUSTOM_PARAMS_NO_SHORT_NAME
     @ [ParamHandler (new_handler env ''versionString'' (Some ''openTypeNameVersion'')),
        EmptyListDefaultParamHandler (new_handler env ''postscriptFamilyBlues'' None),
        EmptyListDefaultParamHandler (new_handler env ''postscriptFamilyOtherBlues'' None),
        ParamHandler ((new_handler env ''codePageRanges'' (Some ''openTypeOS2CodePageRanges''))
          \<lparr>value_to_ufo := codepage_to_ufo env, value_to_glyphs := codepage_to_glyphs env\<rparr>),
        ParamHandler (new_handler env ''openTypeOS2CodePageRanges'' (Some ''openTypeOS2CodePageRanges''))]
     @ map (\<lambda>g. ParamHandler ((new_handler env g (Some (''openTypeOS2W'' @ tl g)))
              \<lparr>glyphs_long_name := Some (''openTypeOS2W'' @ tl g),
               value_to_ufo := py_abs, value_to_glyphs := py_abs\<rparr>))
         [''winAscent'', ''winDescent'']
     @ map (\<lambda>g. ParamHandler ((new_handler env g (Some (''openTypeOS2W'' @ tl g)))
              \<lparr>value_to_ufo := to_int\<rparr>))
         [''weightClass'', ''widthClass'']
     @ [ParamHandler ((new_handler env ''GASP Table'' (Some ''openTypeGaspRangeRecords''))
          \<lparr>value_to_ufo := to_ufo_gasp_table env, value_to_glyphs := to_glyphs_gasp_table env\<rparr>),
        ParamHandler (new_handler env ''Disable Last Change'' (Some ''disablesLastChange'')),
        ParamHandler ((new_handler env (''Don'' @ [CHR 0x27] @ ''t use Production Names'')
            (Some (UFO2FT_USE_PROD_NAMES_KEY env)))
          \<lparr>ufo_prefix := [], value_to_ufo := py_not, value_to_glyphs := py_not\<rparr>),
        MiscParamHandler (new_handler env ''DisplayStrings'' None),
        MiscParamHandler (new_handler env ''disablesAutomaticAlignment'' None),
        MiscParamHandler (new_handler env ''iconName'' None),
        MiscParamHandler ((new_handler env ''disablesNiceNames'' (Some ''useNiceNames''))
          \<lparr>value_to_ufo := int_not, value_to_glyphs := py_not\<rparr>)]
     @ map (\<lambda>number. MiscParamHandler ((new_handler env (''customValue'' @ number) None)\<lparr>ufo_info := False\<rparr>))
         [[], ''1'', ''2'', ''3'']
     @ [MiscParamHandler ((new_handler env ''weightValue'' None)\<lparr>ufo_info := False\<rparr>),
        MiscParamHandler ((new_handler env ''widthValue'' None)\<lparr>ufo_info := False\<rparr>),
        OS2SelectionParamHandler,
        ParamHandler ((new_handler env ''glyphOrder'' None)\<lparr>ufo_prefix := GLYPHS_PREFIX env\<rparr>),
        FilterParamHandler,
        ReplaceFeatureParamHandler]"

section \<open>Defaults and the two passes\<close>

text \<open>
  \<^verbatim>\<open>_normalize_custom_param_name\<close>: the curved quotes U+2018, U+2019, U+201C and U+201D (in UTF-8
  the bytes E2 80 98, E2 80 99, E2 80 9C and E2 80 9D) become straight quotes.
\<close>

definition replacements :: "(string \<times> string) list" where
  "replacements =
     [([CHR 0xE2, CHR 0x80, CHR 0x98], [CHR 0x27]), ([CHR 0xE2, CHR 0x80, CHR 0x99], [CHR 0x27]),
      ([CHR 0xE2, CHR 0x80, CHR 0x9C], [CHR 0x22]), ([CHR 0xE2, CHR 0x80, CHR 0x9D], [CHR 0x22])]"

definition normalize_custom_param_name :: "string \<Rightarrow> string" where
  "normalize_custom_param_name name =
     foldl (\<lambda>name (orig, replacement). replace orig replacement name) name replacements"

definition DEFAULT_PARAMETERS :: "(string \<times> string \<times> pyval) list" where
  "DEFAULT_PARAMETERS =
     [(''fsType'', ''openTypeOS2Type'', PList [PInt 3]),
      (''underlineThickness'', ''postscriptUnderlineThickness'', PInt 50),
      (''underlinePosition'', ''postscriptUnderlinePosition'', PInt (- 100))]"

text \<open>\<^verbatim>\<open>_set_default_params\<close>; \<^verbatim>\<open>getattr\<close> raises when the info object lacks the attribute.\<close>

fun set_default_params :: "(string \<times> string \<times> pyval) list \<Rightarrow> ufo \<Rightarrow> error + ufo" where
  "set_default_params [] u = Inr u"
| "set_default_params ((g_name, u_name, default_value) # ds) u =
     (case info u u_name of
        None \<Rightarrow> Inl AttributeError
      | Some v \<Rightarrow>
          set_default_params ds
            (if v = PNone then u\<lparr>info := (info u)(u_name \<mapsto> default_value)\<rparr> else u))"

text \<open>
  Modelled from the spec: the class of the parameter collection of a Glyphs object (its
  \<^verbatim>\<open>in\<close>, its subscript and its \<^verbatim>\<open>del\<close> by name) is not among the sources. The collection is
  "an ordered, appendable/removable collection of (name, value) parameter pairs": a name is
  in it when a parameter has that name, the subscript reads the value of the first such
  parameter, and \<^verbatim>\<open>del\<close> removes that parameter from the list.
\<close>

definition customParameters_contains :: "(string \<times> pyval) list \<Rightarrow> string \<Rightarrow> bool" where
  "customParameters_contains ps name = (name \<in> fst ` set ps)"

definition customParameters_getitem :: "(string \<times> pyval) list \<Rightarrow> string \<Rightarrow> pyval" where
  "customParameters_getitem ps name = (case map_of ps name of None \<Rightarrow> PNone | Some v \<Rightarrow> v)"

fun customParameters_delitem :: "(string \<times> pyval) list \<Rightarrow> string \<Rightarrow> (string \<times> pyval) list" where
  "customParameters_delitem [] name = []"
| "customParameters_delitem (p # ps) name =
     (if fst p = name then ps else p # customParameters_delitem ps name)"

text \<open>
  \<^verbatim>\<open>_unset_default_params\<close>: both \<^verbatim>\<open>if\<close> statements of the loop body test and delete under
  \<^verbatim>\<open>glyphs_name\<close>; \<^verbatim>\<open>ufo_name\<close> is not used.
\<close>

definition unset_default_param :: "string \<Rightarrow> pyval \<Rightarrow> glyphs_object \<Rightarrow> glyphs_object" where
  "unset_default_param name default_value glyphs =
     (if customParameters_contains (customParameters glyphs) name
         \<and> py_eq (customParameters_getitem (customParameters glyphs) name) default_value
      then glyphs\<lparr>customParameters := customParameters_delitem (customParameters glyphs) name\<rparr>
      else glyphs)"

fun unset_default_params :: "(string \<times> string \<times> pyval) list \<Rightarrow> glyphs_object \<Rightarrow> glyphs_object" where
  "unset_default_params [] glyphs = glyphs"
| "unset_default_params ((g_name, u_name, default_value) # ds) glyphs =
     unset_default_params ds
       (unset_default_param g_name default_value
          (unset_default_param g_name default_value glyphs))"

text \<open>Running every registered handler in registration order; a raise ends the pass.\<close>

fun handlers_to_ufo ::
  "imported \<Rightarrow> handler list \<Rightarrow> glyphs_proxy \<Rightarrow> ufo_proxy \<Rightarrow> error + (glyphs_proxy \<times> ufo_proxy)" where
  "handlers_to_ufo env [] glyphs u = Inr (glyphs, u)"
| "handlers_to_ufo env (h # hs) glyphs u =
     ebind (to_ufo env h glyphs u) (\<lambda>(glyphs', u'). handlers_to_ufo env hs glyphs' u')"

fun handlers_to_glyphs ::
  "imported \<Rightarrow> handler list \<Rightarrow> glyphs_proxy \<Rightarrow> ufo_proxy \<Rightarrow> error + (glyphs_proxy \<times> ufo_proxy)" where
  "handlers_to_glyphs env [] glyphs u = Inr (glyphs, u)"
| "handlers_to_glyphs env (h # hs) glyphs u =
     ebind (to_glyphs env h glyphs u) (\<lambda>(glyphs', u'). handlers_to_glyphs env hs glyphs' u')"

text \<open>The loop of \<^verbatim>\<open>to_ufo_custom_params\<close> over the unhandled custom parameters.\<close>

fun copy_unhandled_params :: "imported \<Rightarrow> string \<Rightarrow> (string \<times> pyval) list \<Rightarrow> ufo \<Rightarrow> ufo" where
  "copy_unhandled_params env sub [] u = u"
| "copy_unhandled_params env sub ((name, v) # params) u =
     copy_unhandled_params env sub params
       (u\<lparr>lib := AList.update (CUSTOM_PARAM_PREFIX env @ sub @ normalize_custom_param_name name) v (lib u)\<rparr>)"

definition to_ufo_custom_params :: "imported \<Rightarrow> ufo \<Rightarrow> glyphs_object \<Rightarrow> error + ufo" where
  "to_ufo_custom_params env u glyphs_object =
     ebind (handlers_to_ufo env (KNOWN_PARAM_HANDLERS env) (GlyphsObjectProxy glyphs_object) (UFOProxy u))
       (\<lambda>(glyphs_proxy, ufo_proxy).
          set_default_params DEFAULT_PARAMETERS
            (copy_unhandled_params env (sub_key glyphs_proxy)
               (unhandled_custom_parameters glyphs_proxy) (ufo_owner ufo_proxy)))"

text \<open>The loop of \<^verbatim>\<open>to_glyphs_custom_params\<close> over the unhandled items of the lib.\<close>

fun append_unhandled_items :: "string \<Rightarrow> (string \<times> pyval) list \<Rightarrow> glyphs_proxy \<Rightarrow> glyphs_proxy" where
  "append_unhandled_items prefix [] glyphs = glyphs"
| "append_unhandled_items prefix ((name, v) # items) glyphs =
     (let name' = normalize_custom_param_name name
      in if \<not> startswith name' prefix then append_unhandled_items prefix items glyphs
         else append_unhandled_items prefix items
                (set_custom_value glyphs (drop (length prefix) name') v))"

definition to_glyphs_custom_params :: "imported \<Rightarrow> ufo \<Rightarrow> glyphs_object \<Rightarrow> error + glyphs_object" where
  "to_glyphs_custom_params env u glyphs_object =
     ebind (handlers_to_glyphs env (KNOWN_PARAM_HANDLERS env) (GlyphsObjectProxy glyphs_object) (UFOProxy u))
       (\<lambda>(glyphs_proxy, ufo_proxy).
          Inr (unset_default_params DEFAULT_PARAMETERS
                 (owner (append_unhandled_items (CUSTOM_PARAM_PREFIX env @ sub_key glyphs_proxy)
                           (unhandled_lib_items env ufo_proxy) glyphs_proxy))))"

section \<open>Inputs for the closed examples\<close>

text \<open>
  The statements below hold for every instance of the imported names; the closed examples
  need one instance. Its prefixes and keys are those of the published package, its code
  page table has two entries, its bit codec lists the positions of the set bits (lowest
  first), and its filter codec and feature patcher keep their arguments.
\<close>

fun set_bit_positions :: "nat \<Rightarrow> nat \<Rightarrow> nat list" where
  "set_bit_positions n i =
     (if n = 0 then [] else (if odd n then [i] else []) @ set_bit_positions (n div 2) (Suc i))"

declare set_bit_positions.simps [simp del]

definition sample_imported :: imported where
  "sample_imported =
     \<lparr> GLYPHS_PREFIX = ''com.schriftgestaltung.'',
       UFO2FT_FILTERS_KEY = ''com.github.googlei18n.ufo2ft.filters'',
       UFO2FT_USE_PROD_NAMES_KEY = ''com.github.googlei18n.ufo2ft.useProductionNames'',
       CODEPAGE_RANGES = [(1252, 0), (1250, 1)],
       REVERSE_CODEPAGE_RANGES = [(0, 1252), (1, 1250)],
       bin_to_int_list = (\<lambda>n. if n < 0 then Inl ValueError
                               else Inr (PList (map (\<lambda>i. PInt (int i)) (set_bit_positions (nat n) 0)))),
       int_list_to_bin = (\<lambda>v. Inl DelegateError),
       parse_glyphs_filter = (\<lambda>text is_pre. Inr (PDict [(PStr ''name'', text), (PStr ''pre'', PBool is_pre)])),
       write_glyphs_filter = (\<lambda>v. Inl DelegateError),
       replace_feature = (\<lambda>tag repl text. Inr (text @ ''feature '' @ tag @ '' { '' @ repl @ '' }'')),
       py_repr = (\<lambda>v. ''?'') \<rparr>"

text \<open>
  A new UFO for the examples: its info object has the attributes the registered handlers
  name (none is set), its lib is empty and it has no feature text.
\<close>

definition new_ufo :: ufo where
  "new_ufo =
     \<lparr> info = map_of (map (\<lambda>name. (name, PNone))
              (map snd GLYPHS_UFO_CUSTOM_PARAMS @ GLYPHS_UFO_CUSTOM_PARAMS_NO_SHORT_NAME @
               [''postscriptFamilyBlues'', ''postscriptFamilyOtherBlues'', ''openTypeOS2CodePageRanges'',
                ''openTypeOS2WinAscent'', ''openTypeOS2WinDescent'', ''openTypeOS2WeightClass'',
                ''openTypeOS2WidthClass'', ''openTypeGaspRangeRecords'', ''openTypeOS2Selection''])),
       lib = [],
       features_text = None \<rparr>"

definition new_GSFont :: "(string \<times> pyval) list \<Rightarrow> glyphs_object" where
  "new_GSFont params = \<lparr> class_name = ''GSFont'', customParameters = params, attributes = Map.empty \<rparr>"

section \<open>Notions used in the statements\<close>

text \<open>
  The value \<^verbatim>\<open>get_custom_value\<close> returns for a name when it does not raise: the first
  registered value, or \<^verbatim>\<open>None\<close>.
\<close>

definition custom_value :: "glyphs_proxy \<Rightarrow> string \<Rightarrow> pyval" where
  "custom_value glyphs key = (if lookup glyphs key = [] then PNone else hd (lookup glyphs key))"

text \<open>
  The selection after the body of the loop of \<^verbatim>\<open>OS2SelectionParamHandler.to_ufo\<close> has run for
  a flag that is set, when it does not raise.
\<close>

definition with_bit :: "pyval \<Rightarrow> int \<Rightarrow> pyval" where
  "with_bit s v =
     (case s of
        PNone \<Rightarrow> PList [PInt v]
      | PList xs \<Rightarrow> if list_ex (\<lambda>x. py_eq x (PInt v)) xs then PList xs else PList (xs @ [PInt v])
      | _ \<Rightarrow> s)"

section \<open>Basic facts\<close>

lemma ebind_Inl [simp]: "ebind (Inl e) f = Inl e"
  by (simp add: ebind_def)

lemma ebind_Inr [simp]: "ebind (Inr x) f = f x"
  by (simp add: ebind_def)

lemma ebind_eq_Inr: "ebind m f = Inr y \<longleftrightarrow> (\<exists>x. m = Inr x \<and> f x = Inr y)"
  by (cases m) simp_all

section \<open>Reading a single-valued custom parameter\<close>

text \<open>
  C2. For every name, \<^verbatim>\<open>get_custom_value\<close> on the proxy of an object returns the single value
  registered under the name, returns \<^verbatim>\<open>None\<close> when no value is registered, and raises
  \<^verbatim>\<open>RuntimeError\<close> exactly when more than one value is registered under it; it raises nothing
  else. The values registered under a name are the values of the object's parameters of
  that name.
\<close>

theorem get_custom_value_single_or_none_or_raise:
  fixes obj :: glyphs_object and name :: string
  defines "registered \<equiv> map snd (filter (\<lambda>param. fst param = name) (customParameters obj))"
  shows "(registered = [] \<longrightarrow>
            (\<exists>p. get_custom_value (GlyphsObjectProxy obj) name = Inr (PNone, p)))
       \<and> (\<forall>v. registered = [v] \<longrightarrow>
            (\<exists>p. get_custom_value (GlyphsObjectProxy obj) name = Inr (v, p)))
       \<and> ((get_custom_value (GlyphsObjectProxy obj) name = Inl RuntimeError)
            \<longleftrightarrow> length registered > 1)
       \<and> (\<forall>e. get_custom_value (GlyphsObjectProxy obj) name = Inl e \<longrightarrow> e = RuntimeError)"
  unfolding registered_def
  by (auto simp: get_custom_value_def GlyphsObjectProxy_def Let_def)

theorem get_custom_value_single_or_none_or_raise_witness:
  "fst (projr (get_custom_value
     (GlyphsObjectProxy (new_GSFont [(''a'', PInt 1), (''b'', PInt 2), (''b'', PInt 3)])) ''a'')) = PInt 1
   \<and> fst (projr (get_custom_value
     (GlyphsObjectProxy (new_GSFont [(''a'', PInt 1), (''b'', PInt 2), (''b'', PInt 3)])) ''c'')) = PNone
   \<and> get_custom_value
     (GlyphsObjectProxy (new_GSFont [(''a'', PInt 1), (''b'', PInt 2), (''b'', PInt 3)])) ''b''
       = Inl RuntimeError"
  using get_custom_value_single_or_none_or_raise
      [where obj = "new_GSFont [(''a'', PInt 1), (''b'', PInt 2), (''b'', PInt 3)]" and name = "''a''"]
    get_custom_value_single_or_none_or_raise
      [where obj = "new_GSFont [(''a'', PInt 1), (''b'', PInt 2), (''b'', PInt 3)]" and name = "''b''"]
    get_custom_value_single_or_none_or_raise
      [where obj = "new_GSFont [(''a'', PInt 1), (''b'', PInt 2), (''b'', PInt 3)]" and name = "''c''"]
  by (auto simp: new_GSFont_def)

section \<open>The GASP table\<close>

lemma gasp_append_records_keys:
  "gasp_append_records env items acc = Inr recs \<Longrightarrow>
   map (\<lambda>r. getitem r ''rangeMaxPPEM'') recs
     = map (\<lambda>r. getitem r ''rangeMaxPPEM'') acc @ map (\<lambda>kv. Inr (PInt (fst kv))) items"
proof (induction items arbitrary: acc)
  case Nil
  then show ?case by simp
next
  case (Cons kv items)
  obtain k v where kv: "kv = (k, v)" by (cases kv)
  from Cons.prems obtain bits where
    "gasp_append_records env items
       (acc @ [PDict [(PStr ''rangeMaxPPEM'', PInt k), (PStr ''rangeGaspBehavior'', bits)]]) = Inr recs"
    by (auto simp: kv ebind_eq_Inr)
  from Cons.IH [OF this] show ?case by (simp add: kv getitem_def)
qed

lemma gasp_append_records_returns:
  "\<forall>kv \<in> set items. \<exists>bits. bin_to_int_list env (snd kv) = Inr bits \<Longrightarrow>
   \<exists>recs. gasp_append_records env items acc = Inr recs"
proof (induction items arbitrary: acc)
  case Nil
  then show ?case by simp
next
  case (Cons kv items)
  obtain k v where kv: "kv = (k, v)" by (cases kv)
  from Cons.prems obtain bits where b: "bin_to_int_list env v = Inr bits" by (auto simp: kv)
  from Cons.prems have "\<forall>kv \<in> set items. \<exists>bits. bin_to_int_list env (snd kv) = Inr bits" by simp
  from Cons.IH [OF this] show ?case by (simp add: kv b)
qed

lemma set_update_subset: "set (AList.update k v d) \<subseteq> insert (k, v) (set d)"
  by (induction d) auto

lemma gasp_int_items_keys:
  "gasp_int_items kvs d = Inr d' \<Longrightarrow> distinct (map fst d) \<Longrightarrow>
   distinct (map fst d') \<and>
   fst ` set d' = fst ` set d \<union> {k. \<exists>kv \<in> set kvs. py_int (fst kv) = Inr k} \<and>
   snd ` set d' \<subseteq> snd ` set d \<union> {v. \<exists>kv \<in> set kvs. py_int (snd kv) = Inr v}"
proof (induction kvs arbitrary: d)
  case Nil
  then show ?case by simp
next
  case (Cons kv kvs)
  obtain k v where kv: "kv = (k, v)" by (cases kv)
  from Cons.prems(1) obtain k' v' where
    k': "py_int k = Inr k'" and v': "py_int v = Inr v'" and
    rest: "gasp_int_items kvs (AList.update k' v' d) = Inr d'"
    by (auto simp: kv ebind_eq_Inr)
  have dist: "distinct (map fst (AList.update k' v' d))"
    using Cons.prems(2) by (simp add: distinct_update)
  have dom: "fst ` set (AList.update k' v' d) = insert k' (fst ` set d)"
    by (simp add: dom_update)
  have ran: "snd ` set (AList.update k' v' d) \<subseteq> insert v' (snd ` set d)"
    using set_update_subset [of k' v' d] by fastforce
  from Cons.IH [OF rest dist] have
    1: "distinct (map fst d')" and
    2: "fst ` set d' = fst ` set (AList.update k' v' d) \<union> {k. \<exists>kv \<in> set kvs. py_int (fst kv) = Inr k}" and
    3: "snd ` set d' \<subseteq> snd ` set (AList.update k' v' d) \<union> {v. \<exists>kv \<in> set kvs. py_int (snd kv) = Inr v}"
    by blast+
  have "fst ` set d' = fst ` set d \<union> {k. \<exists>kv \<in> set (kv # kvs). py_int (fst kv) = Inr k}"
    unfolding 2 dom by (auto simp: kv k')
  moreover have "snd ` set d' \<subseteq> snd ` set d \<union> {v. \<exists>kv \<in> set (kv # kvs). py_int (snd kv) = Inr v}"
  proof
    fix x assume "x \<in> snd ` set d'"
    with 3 ran have "x = v' \<or> x \<in> snd ` set d \<or> x \<in> {v. \<exists>kv \<in> set kvs. py_int (snd kv) = Inr v}"
      by blast
    then show "x \<in> snd ` set d \<union> {v. \<exists>kv \<in> set (kv # kvs). py_int (snd kv) = Inr v}"
      by (auto simp: kv v')
  qed
  ultimately show ?case using 1 by blast
qed

lemma gasp_int_items_returns:
  "\<forall>kv \<in> set kvs. (\<exists>k. py_int (fst kv) = Inr k) \<and> (\<exists>v. py_int (snd kv) = Inr v) \<Longrightarrow>
   \<exists>d'. gasp_int_items kvs d = Inr d'"
proof (induction kvs arbitrary: d)
  case Nil
  then show ?case by simp
next
  case (Cons kv kvs)
  obtain k v where kv: "kv = (k, v)" by (cases kv)
  from Cons.prems obtain k' v' where "py_int k = Inr k'" "py_int v = Inr v'" by (auto simp: kv)
  moreover from Cons.prems have
    "\<forall>kv \<in> set kvs. (\<exists>k. py_int (fst kv) = Inr k) \<and> (\<exists>v. py_int (snd kv) = Inr v)" by simp
  from Cons.IH [OF this] obtain d' where "gasp_int_items kvs (AList.update k' v' d) = Inr d'" by blast
  ultimately show ?case by (simp add: kv)
qed

lemma sorted_map_fst: "sorted (xs :: (int \<times> int) list) \<Longrightarrow> sorted (map fst xs)"
  by (induction xs) (auto simp: less_eq_prod_def)

lemma sorted_fst_sort: "sorted (map fst (sort (d :: (int \<times> int) list)))"
  by (rule sorted_map_fst) simp

lemma strict_sorted_keys:
  "distinct (map fst (d :: (int \<times> int) list)) \<Longrightarrow> sorted_wrt (<) (map fst (sort d))"
proof -
  assume "distinct (map fst d)"
  then have "distinct (map fst (sort d))"
    by (metis distinct_map distinct_sort set_sort)
  with sorted_fst_sort [of d] show ?thesis
    by (simp add: strict_sorted_iff)
qed

text \<open>
  C6. Applied to a mapping whose keys and values are numeric strings (and whose values the
  bit codec accepts), \<^verbatim>\<open>to_ufo_gasp_table\<close> returns a list of records whose \<^verbatim>\<open>rangeMaxPPEM\<close> entries
  are strictly ascending and are exactly the integers the keys denote, whatever the order
  in which the mapping yields its items.
\<close>

theorem to_ufo_gasp_table_sorted:
  assumes numeric: "\<forall>kv \<in> set kvs. \<exists>k v bits. py_int (fst kv) = Inr k \<and> py_int (snd kv) = Inr v
                     \<and> bin_to_int_list env v = Inr bits"
  shows "\<exists>recs ks. to_ufo_gasp_table env (PDict kvs) = Inr (PList recs)
           \<and> map (\<lambda>r. getitem r ''rangeMaxPPEM'') recs = map (\<lambda>k. Inr (PInt k)) ks
           \<and> sorted_wrt (<) ks
           \<and> set ks = {k. \<exists>kv \<in> set kvs. py_int (fst kv) = Inr k}"
proof -
  from numeric have "\<forall>kv \<in> set kvs. (\<exists>k. py_int (fst kv) = Inr k) \<and> (\<exists>v. py_int (snd kv) = Inr v)"
    by blast
  from gasp_int_items_returns [OF this] obtain d where d: "gasp_int_items kvs [] = Inr d" by blast
  from gasp_int_items_keys [OF d] have
    dist: "distinct (map fst d)" and
    keys: "fst ` set d = {k. \<exists>kv \<in> set kvs. py_int (fst kv) = Inr k}" and
    vals: "snd ` set d \<subseteq> {v. \<exists>kv \<in> set kvs. py_int (snd kv) = Inr v}"
    by auto
  have "\<forall>kv \<in> set (sort d). \<exists>bits. bin_to_int_list env (snd kv) = Inr bits"
  proof
    fix kv assume "kv \<in> set (sort d)"
    then have "snd kv \<in> snd ` set d" by simp
    with vals obtain kv' where "kv' \<in> set kvs" "py_int (snd kv') = Inr (snd kv)" by auto
    with numeric show "\<exists>bits. bin_to_int_list env (snd kv) = Inr bits" by fastforce
  qed
  from gasp_append_records_returns [OF this] obtain recs where
    recs: "gasp_append_records env (sort d) [] = Inr recs" by blast
  have "map (\<lambda>r. getitem r ''rangeMaxPPEM'') recs = map (\<lambda>k. Inr (PInt k)) (map fst (sort d))"
    using gasp_append_records_keys [OF recs] by simp
  moreover have "set (map fst (sort d)) = {k. \<exists>kv \<in> set kvs. py_int (fst kv) = Inr k}"
    using keys by simp
  moreover note strict_sorted_keys [OF dist]
  moreover have "to_ufo_gasp_table env (PDict kvs) = Inr (PList recs)"
    by (simp add: to_ufo_gasp_table_def d recs)
  ultimately show ?thesis by blast
qed

lemmas int_of_string_eval = int_of_string_def strip_def is_space_def digit_value_def

theorem to_ufo_gasp_table_sorted_witness:
  "to_ufo_gasp_table sample_imported
     (PDict [(PStr ''40'', PStr ''11000000''), (PStr ''20'', PStr ''00000011'')])
   = Inr (PList
       [PDict [(PStr ''rangeMaxPPEM'', PInt 20),
               (PStr ''rangeGaspBehavior'', PList [PInt 0, PInt 1, PInt 3])],
        PDict [(PStr ''rangeMaxPPEM'', PInt 40),
               (PStr ''rangeGaspBehavior'',
                PList [PInt 6, PInt 7, PInt 11, PInt 12, PInt 14, PInt 15, PInt 16, PInt 17,
                       PInt 18, PInt 21, PInt 23])]])
   \<and> to_ufo_gasp_table sample_imported
     (PDict [(PStr ''20'', PStr ''00000011''), (PStr ''40'', PStr ''11000000'')])
   = to_ufo_gasp_table sample_imported
     (PDict [(PStr ''40'', PStr ''11000000''), (PStr ''20'', PStr ''00000011'')])"
proof -
  have numeric: "\<forall>kv \<in> set [(PStr ''40'', PStr ''11000000''), (PStr ''20'', PStr ''00000011'')].
      \<exists>k v bits. py_int (fst kv) = Inr k \<and> py_int (snd kv) = Inr v
        \<and> bin_to_int_list sample_imported v = Inr bits"
    by (simp add: int_of_string_eval sample_imported_def)
  from to_ufo_gasp_table_sorted [OF numeric] show ?thesis
    by (simp add: to_ufo_gasp_table_def int_of_string_eval sample_imported_def less_eq_prod_def
        set_bit_positions.simps)
qed

section \<open>The OS/2 selection flags\<close>

lemma get_custom_value_Inr:
  "get_custom_value g name = Inr (x, g') \<longleftrightarrow>
     length (lookup g name) \<le> 1 \<and> x = custom_value g name \<and> g' = g\<lparr>handled := insert name (handled g)\<rparr>"
  by (auto simp: get_custom_value_def custom_value_def Let_def)

lemma handled_absorb: "name \<in> handled g \<Longrightarrow> g\<lparr>handled := insert name (handled g)\<rparr> = g"
  by (simp add: insert_absorb)

lemma set_info_value_same:
  "info (ufo_owner u) name = Some v \<Longrightarrow> set_info_value u name v = u"
  by (simp add: set_info_value_def map_upd_triv)

lemma flag_step:
  assumes "OS2Selection_to_ufo_flag name v g u = Inr (g', u')"
  shows "g' = g\<lparr>handled := insert name (handled g)\<rparr>"
    and "length (lookup g name) \<le> 1"
    and "\<not> truthy (custom_value g name) \<Longrightarrow> u' = u"
    and "truthy (custom_value g name) \<Longrightarrow>
           \<exists>s. info (ufo_owner u) ''openTypeOS2Selection'' = Some s
             \<and> u' = set_info_value u ''openTypeOS2Selection'' (with_bit s v)
             \<and> contains_int (with_bit s v) v = Inr True"
  using assms
  by (auto simp: OS2Selection_to_ufo_flag_def ebind_eq_Inr get_custom_value_Inr get_info_value_def
      with_bit_def contains_int_def py_append_def Let_def
      split: option.splits if_splits pyval.splits)


lemma info_set_info_value [simp]:
  "info (ufo_owner (set_info_value u name v)) = (info (ufo_owner u))(name \<mapsto> v)"
  "lib (ufo_owner (set_info_value u name v)) = lib (ufo_owner u)"
  "features_text (ufo_owner (set_info_value u name v)) = features_text (ufo_owner u)"
  "ufo_handled (set_info_value u name v) = ufo_handled u"
  by (simp_all add: set_info_value_def)

lemma custom_value_handled [simp]:
  "custom_value (g\<lparr>handled := H\<rparr>) name = custom_value g name"
  by (simp add: custom_value_def)

lemma contains_int_with_bit_mono:
  "contains_int s n = Inr True \<Longrightarrow> contains_int (with_bit s v) n = Inr True"
  by (auto simp: contains_int_def with_bit_def split: pyval.splits)

lemma contains_int_with_bit_only:
  "contains_int (with_bit s v) n = Inr True \<Longrightarrow> contains_int s n = Inr True \<or> n = v"
  by (auto simp: contains_int_def with_bit_def split: pyval.splits if_splits)

lemma flags_frame:
  "OS2Selection_to_ufo_flags fs g u = Inr (g', u') \<Longrightarrow>
   g' = g\<lparr>handled := handled g \<union> fst ` set fs\<rparr>
   \<and> (\<forall>name \<in> fst ` set fs. length (lookup g name) \<le> 1)
   \<and> ufo_handled u' = ufo_handled u
   \<and> lib (ufo_owner u') = lib (ufo_owner u)
   \<and> features_text (ufo_owner u') = features_text (ufo_owner u)
   \<and> (\<forall>n. n \<noteq> ''openTypeOS2Selection'' \<longrightarrow> info (ufo_owner u') n = info (ufo_owner u) n)"
proof (induction fs arbitrary: g u)
  case Nil
  then show ?case by simp
next
  case (Cons f fs)
  obtain name v where f: "f = (name, v)" by (cases f)
  from Cons.prems obtain g1 u1 where
    step: "OS2Selection_to_ufo_flag name v g u = Inr (g1, u1)" and
    rest: "OS2Selection_to_ufo_flags fs g1 u1 = Inr (g', u')"
    by (auto simp: f ebind_eq_Inr)
  note s = flag_step [OF step]
  have u1: "ufo_handled u1 = ufo_handled u \<and> lib (ufo_owner u1) = lib (ufo_owner u)
      \<and> features_text (ufo_owner u1) = features_text (ufo_owner u)
      \<and> (\<forall>n. n \<noteq> ''openTypeOS2Selection'' \<longrightarrow> info (ufo_owner u1) n = info (ufo_owner u) n)"
    using s(3,4) by (cases "truthy (custom_value g name)") auto
  from Cons.IH [OF rest] u1 s(1,2) show ?case
    by (auto simp: f)
qed

lemma flags_bits:
  "OS2Selection_to_ufo_flags fs g u = Inr (g', u') \<Longrightarrow>
   info (ufo_owner u) ''openTypeOS2Selection'' = Some s \<Longrightarrow>
   \<exists>s'. info (ufo_owner u') ''openTypeOS2Selection'' = Some s'
     \<and> (\<forall>n. contains_int s n = Inr True \<longrightarrow> contains_int s' n = Inr True)
     \<and> (\<forall>n. contains_int s' n = Inr True \<longrightarrow>
            contains_int s n = Inr True \<or> (\<exists>name. (name, n) \<in> set fs \<and> truthy (custom_value g name)))"
proof (induction fs arbitrary: g u s)
  case Nil
  then show ?case by simp
next
  case (Cons f fs)
  obtain name v where f: "f = (name, v)" by (cases f)
  from Cons.prems(1) obtain g1 u1 where
    step: "OS2Selection_to_ufo_flag name v g u = Inr (g1, u1)" and
    rest: "OS2Selection_to_ufo_flags fs g1 u1 = Inr (g', u')"
    by (auto simp: f ebind_eq_Inr)
  note st = flag_step [OF step]
  show ?case
  proof (cases "truthy (custom_value g name)")
    case False
    with st(3) have "u1 = u" by simp
    with Cons.IH [OF rest, of s] Cons.prems(2) obtain s' where
      s': "info (ufo_owner u') ''openTypeOS2Selection'' = Some s'" and
      up: "\<forall>n. contains_int s n = Inr True \<longrightarrow> contains_int s' n = Inr True" and
      down: "\<forall>n. contains_int s' n = Inr True \<longrightarrow>
            contains_int s n = Inr True
              \<or> (\<exists>name. (name, n) \<in> set fs \<and> truthy (custom_value g1 name))"
      by blast
    have "\<forall>n. contains_int s' n = Inr True \<longrightarrow>
            contains_int s n = Inr True \<or> (\<exists>name. (name, n) \<in> set (f # fs) \<and> truthy (custom_value g name))"
      using down st(1) by (simp add: f) blast
    with s' up show ?thesis by blast
  next
    case True
    with st(4) Cons.prems(2) have u1: "info (ufo_owner u1) ''openTypeOS2Selection'' = Some (with_bit s v)"
      by auto
    from Cons.IH [OF rest u1] obtain s' where
      s': "info (ufo_owner u') ''openTypeOS2Selection'' = Some s'" and
      up: "\<forall>n. contains_int (with_bit s v) n = Inr True \<longrightarrow> contains_int s' n = Inr True" and
      down: "\<forall>n. contains_int s' n = Inr True \<longrightarrow>
            contains_int (with_bit s v) n = Inr True
              \<or> (\<exists>name. (name, n) \<in> set fs \<and> truthy (custom_value g1 name))"
      by blast
    have "\<forall>n. contains_int s n = Inr True \<longrightarrow> contains_int s' n = Inr True"
      using up contains_int_with_bit_mono by blast
    moreover have "\<forall>n. contains_int s' n = Inr True \<longrightarrow>
            contains_int s n = Inr True \<or> (\<exists>name. (name, n) \<in> set (f # fs) \<and> truthy (custom_value g name))"
    proof (intro allI impI)
      fix n assume "contains_int s' n = Inr True"
      with down have "contains_int (with_bit s v) n = Inr True
              \<or> (\<exists>name. (name, n) \<in> set fs \<and> truthy (custom_value g1 name))" by blast
      then show "contains_int s n = Inr True \<or> (\<exists>name. (name, n) \<in> set (f # fs) \<and> truthy (custom_value g name))"
        using contains_int_with_bit_only [of s v n] True st(1) by (auto simp: f)
    qed
    ultimately show ?thesis using s' by blast
  qed
qed

text \<open>
  C7. \<^verbatim>\<open>OS2SelectionParamHandler.to_ufo\<close> is monotonic: whatever \<^verbatim>\<open>openTypeOS2Selection\<close> holds
  before, every bit it holds is still held afterwards, and a bit held afterwards was held
  before or is the bit (8 or 7) of a flag whose custom parameter is true.
\<close>

theorem OS2Selection_to_ufo_monotonic:
  assumes "OS2Selection_to_ufo g u = Inr (g', u')"
    and "info (ufo_owner u) ''openTypeOS2Selection'' = Some s"
  shows "\<exists>s'. info (ufo_owner u') ''openTypeOS2Selection'' = Some s'
     \<and> (\<forall>n. contains_int s n = Inr True \<longrightarrow> contains_int s' n = Inr True)
     \<and> (\<forall>n. contains_int s' n = Inr True \<longrightarrow>
            contains_int s n = Inr True
            \<or> (n = 8 \<and> truthy (custom_value g ''Has WWS Names''))
            \<or> (n = 7 \<and> truthy (custom_value g ''Use Typo Metrics'')))"
proof -
  from assms(1) have "OS2Selection_to_ufo_flags flags g u = Inr (g', u')"
    by (simp add: OS2Selection_to_ufo_def)
  from flags_bits [OF this assms(2)] show ?thesis
    by (simp add: flags_def) blast
qed


lemma flag_returns:
  assumes "length (lookup g name) \<le> 1"
    and "info (ufo_owner u) ''openTypeOS2Selection'' = Some s"
    and "s = PNone \<or> (\<exists>xs. s = PList xs)"
  shows "\<exists>g' u'. OS2Selection_to_ufo_flag name v g u = Inr (g', u')"
  using assms
  by (auto simp: OS2Selection_to_ufo_flag_def get_custom_value_def get_info_value_def
      contains_int_def py_append_def Let_def)

lemma with_bit_shape: "s = PNone \<or> (\<exists>xs. s = PList xs) \<Longrightarrow> \<exists>xs. with_bit s v = PList xs"
  by (auto simp: with_bit_def)

lemma flags_returns:
  "\<forall>name \<in> fst ` set fs. length (lookup g name) \<le> 1 \<Longrightarrow>
   info (ufo_owner u) ''openTypeOS2Selection'' = Some s \<Longrightarrow>
   s = PNone \<or> (\<exists>xs. s = PList xs) \<Longrightarrow>
   \<exists>g' u'. OS2Selection_to_ufo_flags fs g u = Inr (g', u')"
proof (induction fs arbitrary: g u s)
  case Nil
  then show ?case by simp
next
  case (Cons f fs)
  obtain name v where f: "f = (name, v)" by (cases f)
  from Cons.prems(1) have len: "length (lookup g name) \<le> 1" by (simp add: f)
  from flag_returns [OF len Cons.prems(2,3)] obtain g1 u1 where
    step: "OS2Selection_to_ufo_flag name v g u = Inr (g1, u1)" by blast
  note st = flag_step [OF step]
  have g1: "\<forall>name \<in> fst ` set fs. length (lookup g1 name) \<le> 1"
    using Cons.prems(1) st(1) by simp
  obtain s1 where s1: "info (ufo_owner u1) ''openTypeOS2Selection'' = Some s1"
      and shape: "s1 = PNone \<or> (\<exists>xs. s1 = PList xs)"
  proof (cases "truthy (custom_value g name)")
    case False
    with st(3) Cons.prems(2,3) that show ?thesis by simp
  next
    case True
    with st(4) Cons.prems(2) have "info (ufo_owner u1) ''openTypeOS2Selection'' = Some (with_bit s v)"
      by auto
    with with_bit_shape [OF Cons.prems(3), of v] that show ?thesis by blast
  qed
  from Cons.IH [OF g1 s1 shape] step show ?case by (simp add: f)
qed

lemma py_eq_PInt [simp]: "py_eq x (PInt v) \<longleftrightarrow> x = PInt v \<or> x = PBool True \<and> v = 1 \<or> x = PBool False \<and> v = 0"
  by (cases x) auto

text \<open>What a list gains from one flag, and from the loop.\<close>

lemma with_bit_list:
  "\<exists>added. with_bit (PList xs) v = PList (xs @ added) \<and> (added = [] \<or> added = [PInt v])
     \<and> (\<forall>b \<in> set added. \<not> list_ex (\<lambda>x. py_eq x b) xs)"
  by (simp add: with_bit_def)

lemma flags_list:
  "OS2Selection_to_ufo_flags fs g u = Inr (g', u') \<Longrightarrow>
   info (ufo_owner u) ''openTypeOS2Selection'' = Some (PList xs) \<Longrightarrow>
   \<exists>added. info (ufo_owner u') ''openTypeOS2Selection'' = Some (PList (xs @ added))
     \<and> distinct added
     \<and> set added \<subseteq> PInt ` snd ` set fs
     \<and> (\<forall>b \<in> set added. \<not> list_ex (\<lambda>x. py_eq x b) xs)"
proof (induction fs arbitrary: g u xs)
  case Nil
  then show ?case by simp
next
  case (Cons f fs)
  obtain name v where f: "f = (name, v)" by (cases f)
  from Cons.prems(1) obtain g1 u1 where
    step: "OS2Selection_to_ufo_flag name v g u = Inr (g1, u1)" and
    rest: "OS2Selection_to_ufo_flags fs g1 u1 = Inr (g', u')"
    by (auto simp: f ebind_eq_Inr)
  note st = flag_step [OF step]
  obtain a1 where u1: "info (ufo_owner u1) ''openTypeOS2Selection'' = Some (PList (xs @ a1))"
    and a1: "a1 = [] \<or> a1 = [PInt v]" and new1: "\<forall>b \<in> set a1. \<not> list_ex (\<lambda>x. py_eq x b) xs"
  proof (cases "truthy (custom_value g name)")
    case False
    with st(3) Cons.prems(2) that [of "[]"] show ?thesis by simp
  next
    case True
    with st(4) Cons.prems(2) have "info (ufo_owner u1) ''openTypeOS2Selection'' = Some (with_bit (PList xs) v)"
      by auto
    with with_bit_list [of xs v] that show ?thesis by auto
  qed
  from Cons.IH [OF rest u1] obtain a2 where
    u': "info (ufo_owner u') ''openTypeOS2Selection'' = Some (PList ((xs @ a1) @ a2))" and
    d2: "distinct a2" and sub2: "set a2 \<subseteq> PInt ` snd ` set fs" and
    new2: "\<forall>b \<in> set a2. \<not> list_ex (\<lambda>x. py_eq x b) (xs @ a1)"
    by blast
  have "distinct (a1 @ a2)"
    using a1 d2 new2 sub2 by (auto simp: list_ex_iff)
  moreover have "set (a1 @ a2) \<subseteq> PInt ` snd ` set (f # fs)"
    using a1 sub2 by (auto simp: f)
  moreover have "\<forall>b \<in> set (a1 @ a2). \<not> list_ex (\<lambda>x. py_eq x b) xs"
    using new1 new2 by (auto simp: list_ex_iff)
  ultimately show ?case using u' by (intro exI [of _ "a1 @ a2"]) simp
qed

lemma flags_none:
  "OS2Selection_to_ufo_flags fs g u = Inr (g', u') \<Longrightarrow>
   info (ufo_owner u) ''openTypeOS2Selection'' = Some PNone \<Longrightarrow>
   info (ufo_owner u') ''openTypeOS2Selection'' = Some PNone
   \<or> (\<exists>added. info (ufo_owner u') ''openTypeOS2Selection'' = Some (PList added)
        \<and> distinct added \<and> set added \<subseteq> PInt ` snd ` set fs)"
proof (induction fs arbitrary: g u)
  case Nil
  then show ?case by simp
next
  case (Cons f fs)
  obtain name v where f: "f = (name, v)" by (cases f)
  from Cons.prems(1) obtain g1 u1 where
    step: "OS2Selection_to_ufo_flag name v g u = Inr (g1, u1)" and
    rest: "OS2Selection_to_ufo_flags fs g1 u1 = Inr (g', u')"
    by (auto simp: f ebind_eq_Inr)
  note st = flag_step [OF step]
  show ?case
  proof (cases "truthy (custom_value g name)")
    case False
    with st(3) have "u1 = u" by simp
    with Cons.IH [OF rest] Cons.prems(2) show ?thesis by (auto simp: f)
  next
    case True
    with st(4) Cons.prems(2) have "info (ufo_owner u1) ''openTypeOS2Selection'' = Some (PList ([] @ [PInt v]))"
      by (auto simp: with_bit_def)
    from flags_list [OF rest this] obtain a2 where
      u': "info (ufo_owner u') ''openTypeOS2Selection'' = Some (PList ([PInt v] @ a2))" and
      d2: "distinct a2" and sub2: "set a2 \<subseteq> PInt ` snd ` set fs" and
      new2: "\<forall>b \<in> set a2. \<not> list_ex (\<lambda>x. py_eq x b) [PInt v]"
      by auto
    have "distinct ([PInt v] @ a2)" using d2 new2 sub2 by auto
    moreover have "set ([PInt v] @ a2) \<subseteq> PInt ` snd ` set (f # fs)" using sub2 by (auto simp: f)
    ultimately show ?thesis using u' by blast
  qed
qed

text \<open>A second run changes nothing.\<close>

lemma flags_done:
  "OS2Selection_to_ufo_flags fs g u = Inr (g', u') \<Longrightarrow>
   \<forall>f \<in> set fs. truthy (custom_value g (fst f)) \<longrightarrow>
      (\<exists>s. info (ufo_owner u') ''openTypeOS2Selection'' = Some s \<and> contains_int s (snd f) = Inr True)"
proof (induction fs arbitrary: g u)
  case Nil
  then show ?case by simp
next
  case (Cons f fs)
  obtain name v where f: "f = (name, v)" by (cases f)
  from Cons.prems(1) obtain g1 u1 where
    step: "OS2Selection_to_ufo_flag name v g u = Inr (g1, u1)" and
    rest: "OS2Selection_to_ufo_flags fs g1 u1 = Inr (g', u')"
    by (auto simp: f ebind_eq_Inr)
  note st = flag_step [OF step]
  have tail: "\<forall>f \<in> set fs. truthy (custom_value g (fst f)) \<longrightarrow>
      (\<exists>s. info (ufo_owner u') ''openTypeOS2Selection'' = Some s \<and> contains_int s (snd f) = Inr True)"
    using Cons.IH [OF rest] st(1) by simp
  have "truthy (custom_value g name) \<longrightarrow>
      (\<exists>s. info (ufo_owner u') ''openTypeOS2Selection'' = Some s \<and> contains_int s v = Inr True)"
  proof
    assume "truthy (custom_value g name)"
    with st(4) obtain s where "info (ufo_owner u1) ''openTypeOS2Selection'' = Some (with_bit s v)"
      and "contains_int (with_bit s v) v = Inr True" by auto
    with flags_bits [OF rest] show
      "\<exists>s. info (ufo_owner u') ''openTypeOS2Selection'' = Some s \<and> contains_int s v = Inr True"
      by blast
  qed
  with tail show ?case by (simp add: f)
qed

lemma flag_stable:
  assumes "name \<in> handled g" and "length (lookup g name) \<le> 1"
    and "truthy (custom_value g name) \<longrightarrow>
      (\<exists>s. info (ufo_owner u) ''openTypeOS2Selection'' = Some s \<and> contains_int s v = Inr True)"
  shows "OS2Selection_to_ufo_flag name v g u = Inr (g, u)"
proof (cases "truthy (custom_value g name)")
  case False
  with assms(1,2) show ?thesis
    by (auto simp: OS2Selection_to_ufo_flag_def get_custom_value_def custom_value_def Let_def insert_absorb
        split: if_splits)
next
  case True
  with assms(3) obtain s where s: "info (ufo_owner u) ''openTypeOS2Selection'' = Some s"
    and c: "contains_int s v = Inr True" by blast
  from c have "s \<noteq> PNone" by (auto simp: contains_int_def)
  with True assms(1,2) s c show ?thesis
    by (simp add: OS2Selection_to_ufo_flag_def get_custom_value_def custom_value_def Let_def
        insert_absorb get_info_value_def set_info_value_same)
qed

lemma flags_stable:
  "\<forall>f \<in> set fs. fst f \<in> handled g \<and> length (lookup g (fst f)) \<le> 1
     \<and> (truthy (custom_value g (fst f)) \<longrightarrow>
          (\<exists>s. info (ufo_owner u) ''openTypeOS2Selection'' = Some s \<and> contains_int s (snd f) = Inr True))
   \<Longrightarrow> OS2Selection_to_ufo_flags fs g u = Inr (g, u)"
proof (induction fs)
  case Nil
  then show ?case by simp
next
  case (Cons f fs)
  obtain name v where f: "f = (name, v)" by (cases f)
  from Cons.prems have "OS2Selection_to_ufo_flag name v g u = Inr (g, u)"
    by (intro flag_stable) (simp_all add: f)
  with Cons show ?case by (simp add: f)
qed

text \<open>
  C10. \<^verbatim>\<open>OS2SelectionParamHandler.to_ufo\<close> appends the bit of a flag only when the selection
  does not hold it: what it appends to a list is free of duplicates and disjoint from the
  list, and running it again on its own result changes nothing.
\<close>

theorem OS2Selection_to_ufo_no_duplicates_idempotent:
  assumes "OS2Selection_to_ufo g u = Inr (g', u')"
  shows "(\<forall>xs. info (ufo_owner u) ''openTypeOS2Selection'' = Some (PList xs) \<longrightarrow>
            (\<exists>added. info (ufo_owner u') ''openTypeOS2Selection'' = Some (PList (xs @ added))
               \<and> distinct added \<and> set added \<inter> set xs = {} \<and> set added \<subseteq> {PInt 8, PInt 7}))
       \<and> (info (ufo_owner u) ''openTypeOS2Selection'' = Some PNone \<longrightarrow>
            info (ufo_owner u') ''openTypeOS2Selection'' = Some PNone
            \<or> (\<exists>added. info (ufo_owner u') ''openTypeOS2Selection'' = Some (PList added)
                 \<and> distinct added \<and> set added \<subseteq> {PInt 8, PInt 7}))
       \<and> OS2Selection_to_ufo g' u' = Inr (g', u')"
proof (intro conjI)
  from assms have run: "OS2Selection_to_ufo_flags flags g u = Inr (g', u')"
    by (simp add: OS2Selection_to_ufo_def)
  show "\<forall>xs. info (ufo_owner u) ''openTypeOS2Selection'' = Some (PList xs) \<longrightarrow>
            (\<exists>added. info (ufo_owner u') ''openTypeOS2Selection'' = Some (PList (xs @ added))
               \<and> distinct added \<and> set added \<inter> set xs = {} \<and> set added \<subseteq> {PInt 8, PInt 7})"
  proof (intro allI impI)
    fix xs assume "info (ufo_owner u) ''openTypeOS2Selection'' = Some (PList xs)"
    from flags_list [OF run this] obtain added where
      1: "info (ufo_owner u') ''openTypeOS2Selection'' = Some (PList (xs @ added))" and
      2: "distinct added" and 3: "set added \<subseteq> PInt ` snd ` set flags" and
      4: "\<forall>b \<in> set added. \<not> list_ex (\<lambda>x. py_eq x b) xs" by blast
    have "b \<notin> set xs" if "b \<in> set added" for b
    proof -
      from 3 that obtain n where n: "b = PInt n" by auto
      show ?thesis
      proof
        assume "b \<in> set xs"
        with 4 that have "\<not> py_eq b b" unfolding list_ex_iff by blast
        with n show False by simp
      qed
    qed
    then have "set added \<inter> set xs = {}" by blast
    moreover from 3 have "set added \<subseteq> {PInt 8, PInt 7}" by (auto simp: flags_def)
    ultimately show "\<exists>added. info (ufo_owner u') ''openTypeOS2Selection'' = Some (PList (xs @ added))
               \<and> distinct added \<and> set added \<inter> set xs = {} \<and> set added \<subseteq> {PInt 8, PInt 7}"
      using 1 2 by blast
  qed
  show "info (ufo_owner u) ''openTypeOS2Selection'' = Some PNone \<longrightarrow>
            info (ufo_owner u') ''openTypeOS2Selection'' = Some PNone
            \<or> (\<exists>added. info (ufo_owner u') ''openTypeOS2Selection'' = Some (PList added)
                 \<and> distinct added \<and> set added \<subseteq> {PInt 8, PInt 7})"
    using flags_none [OF run] by (auto simp: flags_def)
  from flags_frame [OF run] have g': "g' = g\<lparr>handled := handled g \<union> fst ` set flags\<rparr>"
    and len: "\<forall>name \<in> fst ` set flags. length (lookup g name) \<le> 1" by blast+
  have "\<forall>f \<in> set flags. fst f \<in> handled g' \<and> length (lookup g' (fst f)) \<le> 1
     \<and> (truthy (custom_value g' (fst f)) \<longrightarrow>
          (\<exists>s. info (ufo_owner u') ''openTypeOS2Selection'' = Some s \<and> contains_int s (snd f) = Inr True))"
    using flags_done [OF run] len by (simp add: g')
  from flags_stable [OF this] show "OS2Selection_to_ufo g' u' = Inr (g', u')"
    by (simp add: OS2Selection_to_ufo_def)
qed

lemmas OS2Selection_eval = OS2Selection_to_ufo_def flags_def OS2Selection_to_ufo_flag_def
  get_custom_value_def GlyphsObjectProxy_def new_GSFont_def get_info_value_def UFOProxy_def
  contains_int_def py_append_def set_info_value_def Let_def

lemma OS2Selection_to_ufo_sample:
  "\<exists>g' u'. OS2Selection_to_ufo
       (GlyphsObjectProxy (new_GSFont [(''Use Typo Metrics'', PBool True)]))
       (UFOProxy (new_ufo\<lparr>info := (info new_ufo)(''openTypeOS2Selection'' \<mapsto> PList [PInt 1, PInt 8])\<rparr>))
     = Inr (g', u')
     \<and> info (ufo_owner u') ''openTypeOS2Selection'' = Some (PList [PInt 1, PInt 8, PInt 7])"
  by (simp add: OS2Selection_eval)

theorem OS2Selection_to_ufo_monotonic_witness:
  "\<exists>g' u' s'. OS2Selection_to_ufo
       (GlyphsObjectProxy (new_GSFont [(''Use Typo Metrics'', PBool True)]))
       (UFOProxy (new_ufo\<lparr>info := (info new_ufo)(''openTypeOS2Selection'' \<mapsto> PList [PInt 1, PInt 8])\<rparr>))
     = Inr (g', u')
     \<and> info (ufo_owner u') ''openTypeOS2Selection'' = Some s'
     \<and> s' = PList [PInt 1, PInt 8, PInt 7]
     \<and> contains_int s' 1 = Inr True \<and> contains_int s' 8 = Inr True"
proof -
  from OS2Selection_to_ufo_sample obtain g' u' where
    run: "OS2Selection_to_ufo
       (GlyphsObjectProxy (new_GSFont [(''Use Typo Metrics'', PBool True)]))
       (UFOProxy (new_ufo\<lparr>info := (info new_ufo)(''openTypeOS2Selection'' \<mapsto> PList [PInt 1, PInt 8])\<rparr>))
     = Inr (g', u')" and
    res: "info (ufo_owner u') ''openTypeOS2Selection'' = Some (PList [PInt 1, PInt 8, PInt 7])"
    by blast
  have start: "info (ufo_owner (UFOProxy (new_ufo\<lparr>info := (info new_ufo)(''openTypeOS2Selection'' \<mapsto> PList [PInt 1, PInt 8])\<rparr>)))
      ''openTypeOS2Selection'' = Some (PList [PInt 1, PInt 8])"
    by (simp add: UFOProxy_def)
  have "contains_int (PList [PInt 1, PInt 8]) 1 = Inr True" "contains_int (PList [PInt 1, PInt 8]) 8 = Inr True"
    by (simp_all add: contains_int_def)
  with OS2Selection_to_ufo_monotonic [OF run start] res run show ?thesis
    by auto
qed

theorem OS2Selection_to_ufo_no_duplicates_idempotent_witness:
  "\<exists>g' u'. OS2Selection_to_ufo
       (GlyphsObjectProxy (new_GSFont [(''Use Typo Metrics'', PBool True)]))
       (UFOProxy (new_ufo\<lparr>info := (info new_ufo)(''openTypeOS2Selection'' \<mapsto> PList [PInt 1, PInt 8])\<rparr>))
     = Inr (g', u')
     \<and> info (ufo_owner u') ''openTypeOS2Selection'' = Some (PList [PInt 1, PInt 8, PInt 7])
     \<and> OS2Selection_to_ufo g' u' = Inr (g', u')"
proof -
  from OS2Selection_to_ufo_sample obtain g' u' where
    run: "OS2Selection_to_ufo
       (GlyphsObjectProxy (new_GSFont [(''Use Typo Metrics'', PBool True)]))
       (UFOProxy (new_ufo\<lparr>info := (info new_ufo)(''openTypeOS2Selection'' \<mapsto> PList [PInt 1, PInt 8])\<rparr>))
     = Inr (g', u')" and
    res: "info (ufo_owner u') ''openTypeOS2Selection'' = Some (PList [PInt 1, PInt 8, PInt 7])"
    by blast
  from OS2Selection_to_ufo_no_duplicates_idempotent [OF run] res run show ?thesis
    by blast
qed

section \<open>The Replace Feature handler\<close>

lemma ReplaceFeature_to_ufo_loop_frame:
  "ReplaceFeature_to_ufo_loop env vs u = Inr u' \<Longrightarrow> info u' = info u \<and> lib u' = lib u"
proof (induction vs arbitrary: u)
  case Nil
  then show ?case by simp
next
  case (Cons v vs)
  from Cons.prems obtain t where
    "ReplaceFeature_to_ufo_loop env vs (u\<lparr>features_text := Some t\<rparr>) = Inr u'"
    by (auto simp: ebind_eq_Inr)
  from Cons.IH [OF this] show ?case by simp
qed

text \<open>
  C8. The direction from the UFO to Glyphs of the Replace Feature handler does nothing: for
  every pair \<^verbatim>\<open>ReplaceFeatureParamHandler.to_glyphs\<close> returns the Glyphs object and the UFO as
  they are. The other direction consumes the \<^verbatim>\<open>Replace Feature\<close> parameters (the name is marked
  as handled) and leaves no trace of them in the info object or in the lib, so nothing
  regenerates them from a UFO.
\<close>

theorem ReplaceFeature_to_glyphs_noop:
  "to_glyphs env ReplaceFeatureParamHandler glyphs u = Inr (glyphs, u)
   \<and> (\<forall>glyphs' u'. to_ufo env ReplaceFeatureParamHandler glyphs u = Inr (glyphs', u') \<longrightarrow>
        ''Replace Feature'' \<in> handled glyphs'
        \<and> owner glyphs' = owner glyphs
        \<and> info (ufo_owner u') = info (ufo_owner u)
        \<and> lib (ufo_owner u') = lib (ufo_owner u)
        \<and> ufo_handled u' = ufo_handled u)"
proof (intro conjI allI impI)
  show "to_glyphs env ReplaceFeatureParamHandler glyphs u = Inr (glyphs, u)"
    by (simp add: ReplaceFeature_to_glyphs_def)
next
  fix glyphs' u'
  assume "to_ufo env ReplaceFeatureParamHandler glyphs u = Inr (glyphs', u')"
  then obtain o' where
    loop: "ReplaceFeature_to_ufo_loop env (lookup glyphs ''Replace Feature'') (ufo_owner u) = Inr o'" and
    g': "glyphs' = glyphs\<lparr>handled := insert ''Replace Feature'' (handled glyphs)\<rparr>" and
    u': "u' = u\<lparr>ufo_owner := o'\<rparr>"
    by (auto simp: ReplaceFeature_to_ufo_def get_custom_values_def ebind_eq_Inr Let_def)
  from ReplaceFeature_to_ufo_loop_frame [OF loop] g' u'
  show "''Replace Feature'' \<in> handled glyphs'" "owner glyphs' = owner glyphs"
    "info (ufo_owner u') = info (ufo_owner u)" "lib (ufo_owner u') = lib (ufo_owner u)"
    "ufo_handled u' = ufo_handled u"
    by simp_all
qed


lemma re_split_sample: "re_split (PStr ''liga; sub f i by f_i;'') = Inr [''liga'', ''sub f i by f_i;'']"
  by (simp add: re_split_def is_space_def)

lemma ReplaceFeature_to_ufo_sample:
  "\<exists>g' u'. to_ufo sample_imported ReplaceFeatureParamHandler
       (GlyphsObjectProxy (new_GSFont [(''Replace Feature'', PStr ''liga; sub f i by f_i;'')]))
       (UFOProxy new_ufo) = Inr (g', u')
     \<and> features_text (ufo_owner u') = Some ''feature liga { sub f i by f_i; }''"
  by (simp add: ReplaceFeature_to_ufo_def get_custom_values_def GlyphsObjectProxy_def new_GSFont_def
      re_split_sample sample_imported_def UFOProxy_def new_ufo_def Let_def)


theorem ReplaceFeature_to_glyphs_noop_witness:
  "\<exists>g' u'. to_ufo sample_imported ReplaceFeatureParamHandler
       (GlyphsObjectProxy (new_GSFont [(''Replace Feature'', PStr ''liga; sub f i by f_i;'')]))
       (UFOProxy new_ufo) = Inr (g', u')
     \<and> features_text (ufo_owner u') = Some ''feature liga { sub f i by f_i; }''
     \<and> ''Replace Feature'' \<in> handled g'
     \<and> lib (ufo_owner u') = []
     \<and> to_glyphs sample_imported ReplaceFeatureParamHandler (GlyphsObjectProxy (new_GSFont [])) u'
         = Inr (GlyphsObjectProxy (new_GSFont []), u')"
proof -
  from ReplaceFeature_to_ufo_sample obtain g' u' where
    run: "to_ufo sample_imported ReplaceFeatureParamHandler
       (GlyphsObjectProxy (new_GSFont [(''Replace Feature'', PStr ''liga; sub f i by f_i;'')]))
       (UFOProxy new_ufo) = Inr (g', u')" and
    res: "features_text (ufo_owner u') = Some ''feature liga { sub f i by f_i; }''"
    by blast
  have empty: "lib (ufo_owner (UFOProxy new_ufo)) = []"
    by (simp add: UFOProxy_def new_ufo_def)
  from ReplaceFeature_to_glyphs_noop
      [of sample_imported "GlyphsObjectProxy (new_GSFont [(''Replace Feature'', PStr ''liga; sub f i by f_i;'')])"
          "UFOProxy new_ufo"] run
  have "''Replace Feature'' \<in> handled g'" and "lib (ufo_owner u') = lib (ufo_owner (UFOProxy new_ufo))"
    by blast+
  moreover from ReplaceFeature_to_glyphs_noop [of sample_imported "GlyphsObjectProxy (new_GSFont [])" u']
  have "to_glyphs sample_imported ReplaceFeatureParamHandler (GlyphsObjectProxy (new_GSFont [])) u'
         = Inr (GlyphsObjectProxy (new_GSFont []), u')"
    by blast
  ultimately show ?thesis using run res empty by metis
qed

end
